theory Spec2Isabelle
  imports Main "HOL-Library.Sublist" "HOL-Library.Char_ord" "HOL-Library.List_Lexorder"
begin

section \<open>xscen.utils: a shallow embedding\<close>

text \<open>
  The module \<^verbatim>\<open>xscen/utils.py\<close> is glue code over xarray datasets. Python strings are
  \<^typ>\<open>string\<close>, Python dictionaries are association lists in insertion order with
  distinct keys (the order of \<^verbatim>\<open>dict.items()\<close>), raised exceptions are values of
  \<open>py_error\<close> on the left of a sum. \<open>Unmodelled\<close> marks inputs that this embedding does
  not cover (it is no Python exception): no theorem below concludes anything from it.
  Functions of xarray, pandas, pint and xclim that the module calls are either parameters of
  the model or, where a claim depends on what they do to labels, modelled by a definition
  named after the library function.
\<close>

datatype py_error =
    KeyError string
  | IndexError
  | ValueError
  | TypeError
  | AttributeError
  | NotImplementedError string
  | FileNotFoundError string
  | Unmodelled

subsection \<open>Python dictionaries and early exits\<close>

text \<open>
  \<^verbatim>\<open>d[k] = v\<close> keeps the position of a key that is present and appends a new key;
  \<^verbatim>\<open>del d[k]\<close> and \<^verbatim>\<open>d.pop(k)\<close> remove it; \<^verbatim>\<open>d.update(other)\<close> assigns the items of
  \<open>other\<close> in order; \<^verbatim>\<open>d.get(k, default)\<close> is \<open>dict_get_default\<close>; \<^verbatim>\<open>d[k]\<close> is
  \<^const>\<open>map_of\<close>, a \<open>KeyError\<close> where it gives \<open>None\<close>.
\<close>

definition dict_set :: "'k \<Rightarrow> 'a \<Rightarrow> ('k \<times> 'a) list \<Rightarrow> ('k \<times> 'a) list" where
  "dict_set k v d =
     (if k \<in> fst ` set d then map (\<lambda>(k', v'). if k' = k then (k', v) else (k', v')) d
      else d @ [(k, v)])"

definition dict_remove :: "'k \<Rightarrow> ('k \<times> 'a) list \<Rightarrow> ('k \<times> 'a) list" where
  "dict_remove k d = filter (\<lambda>(k', v'). k' \<noteq> k) d"

definition dict_update :: "('k \<times> 'a) list \<Rightarrow> ('k \<times> 'a) list \<Rightarrow> ('k \<times> 'a) list" where
  "dict_update d other = fold (\<lambda>(k, v) acc. dict_set k v acc) other d"

definition dict_get_default :: "('k \<times> 'a) list \<Rightarrow> 'k \<Rightarrow> 'a \<Rightarrow> 'a" where
  "dict_get_default d k dflt = (case map_of d k of Some v \<Rightarrow> v | None \<Rightarrow> dflt)"

text \<open>Sequencing of statements that may raise: the first exception ends the call.\<close>

definition and_then :: "py_error + 'a \<Rightarrow> ('a \<Rightarrow> py_error + 'b) \<Rightarrow> py_error + 'b" where
  "and_then r f = (case r of Inl e \<Rightarrow> Inl e | Inr x \<Rightarrow> f x)"

text \<open>A list comprehension whose element expression may raise.\<close>

fun traverse :: "('a \<Rightarrow> py_error + 'b) \<Rightarrow> 'a list \<Rightarrow> py_error + 'b list" where
  "traverse f [] = Inr []"
| "traverse f (x # xs) =
     (case f x of Inl e \<Rightarrow> Inl e
      | Inr y \<Rightarrow> (case traverse f xs of Inl e \<Rightarrow> Inl e | Inr ys \<Rightarrow> Inr (y # ys)))"

text \<open>\<^verbatim>\<open>str(n)\<close> for a non-negative integer, and \<^verbatim>\<open>sep.join(strings)\<close>.\<close>

definition digit_char :: "nat \<Rightarrow> char" where
  "digit_char d = ''0123456789'' ! d"

function str_of_nat :: "nat \<Rightarrow> string" where
  "str_of_nat n =
     (if n < 10 then [digit_char n] else str_of_nat (n div 10) @ [digit_char (n mod 10)])"
  by pat_completeness auto
termination
  by (relation "measure id") auto

declare str_of_nat.simps [simp del]

text \<open>\<^verbatim>\<open>s.replace(old, new)\<close>: every non-overlapping occurrence, from the left.\<close>

function str_replace :: "string \<Rightarrow> string \<Rightarrow> string \<Rightarrow> string" where
  "str_replace old new s =
     (if old = [] then new @ concat (map (\<lambda>c. c # new) s)
      else if s = [] then []
      else if prefix old s then new @ str_replace old new (drop (length old) s)
      else hd s # str_replace old new (tl s))"
  by pat_completeness auto
termination
  by (relation "measure (\<lambda>(old, new, s). length s)") auto

declare str_replace.simps [simp del]


lemma map_of_replace_other:
  "k' \<noteq> k \<Longrightarrow> map_of (map (\<lambda>(k', v'). if k' = k then (k', v) else (k', v')) d) k' = map_of d k'"
  by (induction d) auto

lemma map_of_replace_same:
  "k \<in> fst ` set d \<Longrightarrow> map_of (map (\<lambda>(k', v'). if k' = k then (k', v) else (k', v')) d) k = Some v"
  by (induction d) auto

lemma map_of_dict_set: "map_of (dict_set k v d) k' = (if k' = k then Some v else map_of d k')"
proof (cases "k \<in> fst ` set d")
  case True
  then show ?thesis
    by (simp add: dict_set_def map_of_replace_other map_of_replace_same)
next
  case False
  then have "map_of d k = None" by (simp add: map_of_eq_None_iff)
  with False show ?thesis by (auto simp: dict_set_def map_add_def split: option.splits)
qed

lemma map_of_dict_remove: "map_of (dict_remove k d) k' = (if k' = k then None else map_of d k')"
  unfolding dict_remove_def by (induction d) auto

lemma traverse_Inr: "traverse f xs = Inr ys \<Longrightarrow> list_all2 (\<lambda>x y. f x = Inr y) xs ys"
proof (induction xs arbitrary: ys)
  case Nil
  then show ?case by simp
next
  case (Cons x xs)
  then show ?case
    by (auto split: sum.splits)
qed

subsection \<open>minimum\_calendar\<close>

text \<open>
  \<^verbatim>\<open>def minimum_calendar(*calendars)\<close>: the arguments are the list \<open>calendars\<close>.
  Python's \<^verbatim>\<open>x in calendars\<close> is list membership, \<^verbatim>\<open>all(...)\<close> is \<^const>\<open>list_all\<close>.
\<close>

definition minimum_calendar :: "string list \<Rightarrow> string" where
  "minimum_calendar calendars =
     (if ''360_day'' \<in> set calendars then ''360_day''
      else if ''noleap'' \<in> set calendars \<or> ''365_day'' \<in> set calendars then ''noleap''
      else if list_all (\<lambda>cal. cal \<in> set [''all_leap'', ''366_day'']) calendars then ''all_leap''
      else ''standard'')"

text \<open>
  The hierarchy of the docstring, \<^verbatim>\<open>360_day < noleap < standard < all_leap\<close>, as a rank.
  \<^verbatim>\<open>365_day\<close> and \<^verbatim>\<open>366_day\<close> are the CF aliases of \<^verbatim>\<open>noleap\<close> and \<^verbatim>\<open>all_leap\<close>; every
  other name counts as \<^verbatim>\<open>standard\<close>. This rank is the specification side of the
  comparison, it is not taken from the code.
\<close>

definition calendar_rank :: "string \<Rightarrow> nat" where
  "calendar_rank cal =
     (if cal = ''360_day'' then 0
      else if cal = ''noleap'' \<or> cal = ''365_day'' then 1
      else if cal = ''all_leap'' \<or> cal = ''366_day'' then 3
      else 2)"

definition calendar_of_rank :: "nat \<Rightarrow> string" where
  "calendar_of_rank r =
     (if r = 0 then ''360_day'' else if r = 1 then ''noleap''
      else if r = 2 then ''standard'' else ''all_leap'')"

lemma calendar_rank_le3: "calendar_rank cal \<le> 3"
  by (simp add: calendar_rank_def)

lemma calendar_rank_0: "calendar_rank cal = 0 \<longleftrightarrow> cal = ''360_day''"
  by (simp add: calendar_rank_def)

lemma calendar_rank_1: "calendar_rank cal = 1 \<longleftrightarrow> cal = ''noleap'' \<or> cal = ''365_day''"
  by (simp add: calendar_rank_def)

lemma calendar_rank_3: "calendar_rank cal = 3 \<longleftrightarrow> cal = ''all_leap'' \<or> cal = ''366_day''"
  by (simp add: calendar_rank_def)

lemma rank0_in: "0 \<in> calendar_rank ` set cs \<longleftrightarrow> ''360_day'' \<in> set cs"
  unfolding image_iff using calendar_rank_0 by (metis (no_types))

lemma rank1_in: "1 \<in> calendar_rank ` set cs \<longleftrightarrow> ''noleap'' \<in> set cs \<or> ''365_day'' \<in> set cs"
  unfolding image_iff using calendar_rank_1 by (metis (no_types))

lemma rank3_all: "list_all (\<lambda>cal. cal \<in> set [''all_leap'', ''366_day'']) cs \<longleftrightarrow> (\<forall>c \<in> set cs. calendar_rank c = 3)"
  unfolding list_all_iff calendar_rank_3 by simp

lemma minimum_calendar_rank:
  assumes "calendars \<noteq> []"
  shows "minimum_calendar calendars = calendar_of_rank (Min (calendar_rank ` set calendars))"
proof -
  let ?R = "calendar_rank ` set calendars"
  have fin: "finite ?R" and ne: "?R \<noteq> {}"
    using assms by simp_all
  have in0: "0 \<in> ?R \<longleftrightarrow> ''360_day'' \<in> set calendars" by (rule rank0_in)
  have in1: "1 \<in> ?R \<longleftrightarrow> ''noleap'' \<in> set calendars \<or> ''365_day'' \<in> set calendars"
    by (rule rank1_in)
  have MinR: "Min ?R \<in> ?R" by (rule Min_in [OF fin ne])
  show ?thesis
  proof (cases "''360_day'' \<in> set calendars")
    case True
    then have "0 \<in> ?R" using in0 by simp
    then have "Min ?R \<le> 0" using fin by (rule Min_le [rotated])
    then have "Min ?R = 0" by simp
    with True show ?thesis
      unfolding minimum_calendar_def calendar_of_rank_def by simp
  next
    case n0: False
    then have m0: "Min ?R \<noteq> 0" using MinR in0 by metis
    show ?thesis
    proof (cases "''noleap'' \<in> set calendars \<or> ''365_day'' \<in> set calendars")
      case True
      then have "1 \<in> ?R" using in1 by simp
      then have "Min ?R \<le> 1" using fin by (rule Min_le [rotated])
      with m0 have "Min ?R = 1" by simp
      with n0 True show ?thesis
        unfolding minimum_calendar_def calendar_of_rank_def by simp
    next
      case n1: False
      then have m1: "Min ?R \<noteq> 1" using MinR in1 by metis
      show ?thesis
      proof (cases "list_all (\<lambda>cal. cal \<in> set [''all_leap'', ''366_day'']) calendars")
        case True
        then have "\<forall>c \<in> set calendars. calendar_rank c = 3" using rank3_all by blast
        then have "\<forall>r \<in> ?R. r = 3" by blast
        then have "Min ?R = 3" using MinR by blast
        with n0 n1 True show ?thesis
          unfolding minimum_calendar_def calendar_of_rank_def by simp
      next
        case False
        then obtain c where c: "c \<in> set calendars" "calendar_rank c \<noteq> 3"
          using rank3_all by blast
        have "calendar_rank c \<in> ?R" using c(1) by (rule imageI)
        then have "Min ?R \<le> calendar_rank c" using fin by (rule Min_le [rotated])
        moreover have "calendar_rank c \<le> 3" by (rule calendar_rank_le3)
        ultimately have "Min ?R < 3" using c(2) by simp
        with m0 m1 have "Min ?R = 2" by simp
        with n0 n1 False show ?thesis
          unfolding minimum_calendar_def calendar_of_rank_def by simp
      qed
    qed
  qed
qed

text \<open>
  C2, as stated, fails on its second example: \<^verbatim>\<open>minimum_calendar("noleap", "all_leap")\<close>
  is \<^verbatim>\<open>"noleap"\<close> (the second test of the function fires), not \<^verbatim>\<open>"standard"\<close>.
\<close>

theorem minimum_calendar_noleap_all_leap_counterexample:
  "minimum_calendar [''noleap'', ''all_leap''] \<noteq> ''standard''"
  by (simp add: minimum_calendar_def)

text \<open>
  C2 (amended): for at least one argument, \<open>minimum_calendar\<close> returns the name of the least
  rank among its arguments under \<^verbatim>\<open>360_day < noleap < standard < all_leap\<close>; in particular
  \<^verbatim>\<open>("standard", "360_day")\<close> gives \<^verbatim>\<open>"360_day"\<close>, \<^verbatim>\<open>("noleap", "all_leap")\<close> gives
  \<^verbatim>\<open>"noleap"\<close> and \<^verbatim>\<open>("all_leap", "366_day")\<close> gives \<^verbatim>\<open>"all_leap"\<close>.
\<close>

theorem minimum_calendar_is_minimum:
  "(calendars \<noteq> [] \<longrightarrow>
      minimum_calendar calendars = calendar_of_rank (Min (calendar_rank ` set calendars)))
   \<and> minimum_calendar [''standard'', ''360_day''] = ''360_day''
   \<and> minimum_calendar [''noleap'', ''all_leap''] = ''noleap''
   \<and> minimum_calendar [''all_leap'', ''366_day''] = ''all_leap''"
proof (intro conjI impI)
  assume "calendars \<noteq> []"
  then show "minimum_calendar calendars = calendar_of_rank (Min (calendar_rank ` set calendars))"
    by (rule minimum_calendar_rank)
next
  show "minimum_calendar [''standard'', ''360_day''] = ''360_day''"
    by (simp add: minimum_calendar_def)
next
  show "minimum_calendar [''noleap'', ''all_leap''] = ''noleap''"
    by (simp add: minimum_calendar_def)
next
  show "minimum_calendar [''all_leap'', ''366_day''] = ''all_leap''"
    by (simp add: minimum_calendar_def)
qed

theorem minimum_calendar_is_minimum_witness:
  "[''standard'', ''all_leap''] \<noteq> []
   \<and> minimum_calendar [''standard'', ''all_leap''] = ''standard''
   \<and> calendar_of_rank (Min (calendar_rank ` set [''standard'', ''all_leap''])) = ''standard''"
proof -
  have ne: "[''standard'', ''all_leap''] \<noteq> []" by simp
  have m: "minimum_calendar [''standard'', ''all_leap''] = ''standard''"
    by (simp add: minimum_calendar_def)
  from minimum_calendar_is_minimum [of "[''standard'', ''all_leap'']"] ne
  have "minimum_calendar [''standard'', ''all_leap'']
      = calendar_of_rank (Min (calendar_rank ` set [''standard'', ''all_leap'']))"
    by blast
  with ne m show ?thesis by simp
qed

subsection \<open>Controlled vocabularies: \_\_read\_CVs and cvfunc\<close>

text \<open>
  The values of a vocabulary file are JSON values, and \<^verbatim>\<open>default\<close> is any Python value.
\<close>

datatype pyval = PNone | PBool bool | PInt int | PStr string | PList "pyval list"

fun truthy :: "pyval \<Rightarrow> bool" where
  "truthy PNone = False"
| "truthy (PBool b) = b"
| "truthy (PInt i) = (i \<noteq> 0)"
| "truthy (PStr s) = (s \<noteq> [])"
| "truthy (PList xs) = (xs \<noteq> [])"

text \<open>
  \<^verbatim>\<open>re.fullmatch\<close> is a parameter: it answers whether the pattern matches the whole key, or
  raises. The loop of \<^verbatim>\<open>cvfunc\<close> swallows a \<open>TypeError\<close> and goes on to the next pattern;
  any other exception leaves the function.
\<close>

fun cv_search ::
  "(string \<Rightarrow> string \<Rightarrow> py_error + bool) \<Rightarrow> (string \<times> pyval) list \<Rightarrow> string \<Rightarrow> py_error + pyval option" where
  "cv_search fullmatch [] key = Inr None"
| "cv_search fullmatch ((cin, cout) # rest) key =
     (case fullmatch cin key of
        Inr True \<Rightarrow> Inr (Some cout)
      | Inr False \<Rightarrow> cv_search fullmatch rest key
      | Inl TypeError \<Rightarrow> cv_search fullmatch rest key
      | Inl e \<Rightarrow> Inl e)"

definition cvfunc ::
  "(string \<Rightarrow> string \<Rightarrow> py_error + bool) \<Rightarrow> (string \<times> pyval) list \<Rightarrow> bool \<Rightarrow>
   string \<Rightarrow> pyval \<Rightarrow> py_error + pyval" where
  "cvfunc fullmatch cv is_regex key dflt =
     (case (if is_regex then cv_search fullmatch cv key else Inr (map_of cv key)) of
        Inl e \<Rightarrow> Inl e
      | Inr (Some cout) \<Rightarrow> Inr cout
      | Inr None \<Rightarrow>
          (case dflt of
             PStr s \<Rightarrow> if s = ''pass'' then Inr (PStr key)
                       else if s = ''error'' then Inl (KeyError key)
                       else Inr dflt
           | _ \<Rightarrow> Inr dflt))"

text \<open>
  \<^verbatim>\<open>__read_CVs\<close> pops the reserved entry \<^verbatim>\<open>is_regex\<close> (default \<^verbatim>\<open>False\<close>) from the parsed
  file and returns the closure \<^verbatim>\<open>cvfunc\<close> over the remaining entries.
\<close>

definition read_CVs ::
  "(string \<Rightarrow> string \<Rightarrow> py_error + bool) \<Rightarrow> (string \<times> pyval) list \<Rightarrow>
   string \<Rightarrow> pyval \<Rightarrow> py_error + pyval" where
  "read_CVs fullmatch raw =
     (let is_regex = truthy (dict_get_default raw ''is_regex'' (PBool False));
          cv = dict_remove ''is_regex'' raw
      in cvfunc fullmatch cv is_regex)"

text \<open>A pattern that does not stop the search: no match, or a swallowed \<open>TypeError\<close>.\<close>

definition no_match :: "(string \<Rightarrow> string \<Rightarrow> py_error + bool) \<Rightarrow> string \<Rightarrow> string \<Rightarrow> bool" where
  "no_match fullmatch key cin = (fullmatch cin key = Inr False \<or> fullmatch cin key = Inl TypeError)"

lemma cv_search_none:
  "list_all (no_match fullmatch key) (map fst cv) \<Longrightarrow> cv_search fullmatch cv key = Inr None"
  by (induction cv) (auto simp: no_match_def)

lemma cv_search_first:
  "list_all (no_match fullmatch key) (map fst pre) \<Longrightarrow> fullmatch cin key = Inr True \<Longrightarrow>
   cv_search fullmatch (pre @ (cin, cout) # post) key = Inr (Some cout)"
  by (induction pre) (auto simp: no_match_def)

lemma cvfunc_unmapped:
  assumes "(if is_regex then cv_search fullmatch cv key else Inr (map_of cv key)) = Inr None"
  shows "cvfunc fullmatch cv is_regex key (PStr ''pass'') = Inr (PStr key)"
    and "cvfunc fullmatch cv is_regex key (PStr ''error'') = Inl (KeyError key)"
    and "dflt \<noteq> PStr ''pass'' \<Longrightarrow> dflt \<noteq> PStr ''error'' \<Longrightarrow>
         cvfunc fullmatch cv is_regex key dflt = Inr dflt"
  using assms by (auto simp: cvfunc_def split: pyval.splits)

lemma cvfunc_mapped:
  assumes "(if is_regex then cv_search fullmatch cv key else Inr (map_of cv key)) = Inr (Some cout)"
  shows "cvfunc fullmatch cv is_regex key dflt = Inr cout"
  using assms by (auto simp: cvfunc_def)

text \<open>
  C7: for a key that is not in the mapping (no entry with that key; for a regex vocabulary,
  no pattern matching it), \<^verbatim>\<open>default="pass"\<close> returns the key unchanged,
  \<^verbatim>\<open>default="error"\<close> raises \<^verbatim>\<open>KeyError(key)\<close>, and any other default is returned as it
  is; for a mapped key (for a regex vocabulary, the first pattern that matches) the mapped
  value is returned whatever the default.
\<close>

theorem cvfunc_lookup_contract:
  fixes cv :: "(string \<times> pyval) list"
  shows "(\<not> is_regex \<and> key \<notin> fst ` set cv
          \<or> is_regex \<and> list_all (no_match fullmatch key) (map fst cv) \<longrightarrow>
            cvfunc fullmatch cv is_regex key (PStr ''pass'') = Inr (PStr key)
          \<and> cvfunc fullmatch cv is_regex key (PStr ''error'') = Inl (KeyError key)
          \<and> (dflt \<noteq> PStr ''pass'' \<and> dflt \<noteq> PStr ''error'' \<longrightarrow>
               cvfunc fullmatch cv is_regex key dflt = Inr dflt))
       \<and> (\<not> is_regex \<and> map_of cv key = Some cout
          \<or> is_regex \<and> (\<exists>pre cin post. cv = pre @ (cin, cout) # post
                \<and> list_all (no_match fullmatch key) (map fst pre) \<and> fullmatch cin key = Inr True) \<longrightarrow>
            cvfunc fullmatch cv is_regex key dflt = Inr cout)"
proof (intro conjI impI)
  assume "\<not> is_regex \<and> key \<notin> fst ` set cv
          \<or> is_regex \<and> list_all (no_match fullmatch key) (map fst cv)"
  then have un: "(if is_regex then cv_search fullmatch cv key else Inr (map_of cv key)) = Inr None"
    using cv_search_none [of fullmatch key cv] by (auto simp: map_of_eq_None_iff)
  show "cvfunc fullmatch cv is_regex key (PStr ''pass'') = Inr (PStr key)"
    by (rule cvfunc_unmapped(1) [OF un])
  show "cvfunc fullmatch cv is_regex key (PStr ''error'') = Inl (KeyError key)"
    by (rule cvfunc_unmapped(2) [OF un])
  assume "dflt \<noteq> PStr ''pass'' \<and> dflt \<noteq> PStr ''error''"
  then show "cvfunc fullmatch cv is_regex key dflt = Inr dflt"
    using cvfunc_unmapped(3) [OF un] by blast
next
  assume "\<not> is_regex \<and> map_of cv key = Some cout
          \<or> is_regex \<and> (\<exists>pre cin post. cv = pre @ (cin, cout) # post
                \<and> list_all (no_match fullmatch key) (map fst pre) \<and> fullmatch cin key = Inr True)"
  then have "(if is_regex then cv_search fullmatch cv key else Inr (map_of cv key)) = Inr (Some cout)"
    using cv_search_first [of fullmatch key _ _ cout] by auto
  then show "cvfunc fullmatch cv is_regex key dflt = Inr cout"
    by (rule cvfunc_mapped)
qed

text \<open>An excerpt of the vocabulary \<^verbatim>\<open>frequency_to_xrfreq\<close>, for the witness.\<close>

definition frequency_to_xrfreq :: "(string \<times> pyval) list" where
  "frequency_to_xrfreq = [(''1hr'', PStr ''H''), (''day'', PStr ''D''), (''mon'', PStr ''MS'')]"

theorem cvfunc_lookup_contract_witness:
  "''yr'' \<notin> fst ` set frequency_to_xrfreq
   \<and> map_of frequency_to_xrfreq ''day'' = Some (PStr ''D'')
   \<and> PNone \<noteq> PStr ''pass'' \<and> PNone \<noteq> PStr ''error''
   \<and> cvfunc (\<lambda>cin key. Inr (cin = key)) frequency_to_xrfreq False ''yr'' (PStr ''pass'') = Inr (PStr ''yr'')
   \<and> cvfunc (\<lambda>cin key. Inr (cin = key)) frequency_to_xrfreq False ''yr'' (PStr ''error'') = Inl (KeyError ''yr'')
   \<and> cvfunc (\<lambda>cin key. Inr (cin = key)) frequency_to_xrfreq False ''yr'' PNone = Inr PNone
   \<and> cvfunc (\<lambda>cin key. Inr (cin = key)) frequency_to_xrfreq False ''day'' PNone = Inr (PStr ''D'')"
proof -
  have a: "''yr'' \<notin> fst ` set frequency_to_xrfreq"
    by (simp add: frequency_to_xrfreq_def)
  have b: "map_of frequency_to_xrfreq ''day'' = Some (PStr ''D'')"
    by (simp add: frequency_to_xrfreq_def)
  have c: "PNone \<noteq> PStr ''pass'' \<and> PNone \<noteq> PStr ''error''" by simp
  note t1 = cvfunc_lookup_contract [of False "''yr''" frequency_to_xrfreq
      "\<lambda>cin key. Inr (cin = key)" PNone "PStr ''D''"]
  note t2 = cvfunc_lookup_contract [of False "''day''" frequency_to_xrfreq
      "\<lambda>cin key. Inr (cin = key)" PNone "PStr ''D''"]
  from t1 a c b t2 show ?thesis by blast
qed

subsection \<open>Datasets\<close>

text \<open>
  The part of an \<^verbatim>\<open>xarray.Dataset\<close> that the module's functions read and write: the global
  attributes, the one-dimensional coordinate variables and the data variables. Attribute
  values are strings. A coordinate lies along one dimension \<open>c_dim\<close>; a data variable lists
  its dimensions and holds its values flattened in row-major (C) order. The values \<open>'v\<close> of
  a data variable are opaque: a number, or whatever the variable holds along dimensions that
  the function at hand does not touch. A mask is a boolean array with dimensions, shape,
  coordinates and row-major values.
\<close>

type_synonym attrs = "(string \<times> string) list"

record 'c coord =
  c_dim :: string
  c_values :: "'c list"
  c_attrs :: attrs

record 'v var =
  v_dims :: "string list"
  v_values :: "'v list"
  v_attrs :: attrs

record ('c, 'v) dataset =
  attrs :: attrs
  coords :: "(string \<times> 'c coord) list"
  data_vars :: "(string \<times> 'v var) list"



subsection \<open>stack\_drop\_nans\<close>

text \<open>
  The side-car file written by \<^verbatim>\<open>mask.coords.to_dataset().to_netcdf(to_file)\<close> holds the
  coordinates of the mask; the file system is a map from paths to such files, and
  \<^verbatim>\<open>to_file.format(domain=..., shape=...)\<close> is the parameter \<open>format\<close>. Creating the parent
  directory and I/O failures are outside the embedding.
\<close>

type_synonym 'c coords_file = "(string \<times> 'c coord) list"

text \<open>
  \<^verbatim>\<open>.where(mask_1d, drop=True)\<close> along the stacked dimension, for a one-dimensional mask
  aligned with it: the entries where the mask is true, in order.
\<close>

definition where_drop :: "bool list \<Rightarrow> 'a list \<Rightarrow> 'a list" where
  "where_drop cond xs = map snd (filter fst (zip cond xs))"




subsection \<open>unstack\_fill\_nan\<close>

text \<open>
  The argument \<^verbatim>\<open>coords\<close>: \<^verbatim>\<open>None\<close>, a list or tuple of names, a \<^verbatim>\<open>dict\<close> from names to
  arrays, or a path (a \<^verbatim>\<open>str\<close>).
\<close>

datatype 'c coords_arg =
    CoordsNone
  | CoordsNames "string list"
  | CoordsMapping "(string \<times> 'c list) list"
  | CoordsPath string

text \<open>
  Label-based lookup, as \<^verbatim>\<open>unstack\<close> and \<^verbatim>\<open>reindex\<close> do it: the value at each point of the
  new grid is the value the old index holds for that label tuple, and the fill value
  (\<^verbatim>\<open>dtypes.NA\<close>, not-a-number for floating point) where the old index has none.
\<close>

definition regrid :: "'c list list \<Rightarrow> 'v list \<Rightarrow> 'v \<Rightarrow> 'c list list \<Rightarrow> 'v list" where
  "regrid index vals fill grid =
     map (\<lambda>t. case map_of (zip index vals) t of Some x \<Rightarrow> x | None \<Rightarrow> fill) grid"

text \<open>
  \<^verbatim>\<open>ds.drop_vars(dims).assign_coords({dim: pd.MultiIndex.from_arrays(crds, names=dims)}).unstack(dim)\<close>.
  \<open>from_arrays\<close> wants arrays of one length; \<open>unstack\<close> refuses an index with duplicate
  entries; the levels of the index are the sorted unique values of each array, and the
  unstacked grid is their product. Other coordinates along \<open>dim\<close> and data variables with
  \<open>dim\<close> among several dimensions are not covered.
\<close>

definition unstack ::
  "'v \<Rightarrow> ('c::linorder, 'v) dataset \<Rightarrow> string \<Rightarrow> (string \<times> 'c coord) list \<Rightarrow>
   py_error + ('c, 'v) dataset" where
  "unstack fill ds dim sel =
     (let dims = map fst sel;
          crds = map (\<lambda>(n, c). c_values c) sel;
          npoints = length (hd crds);
          index = map (\<lambda>i. map (\<lambda>c. c ! i) crds) [0..<npoints]
      in if \<exists>c \<in> set crds. length c \<noteq> npoints then Inl ValueError
         else if \<not> distinct index then Inl ValueError
         else if (\<exists>(n, c) \<in> set (coords ds). c_dim c = dim \<and> n \<notin> set dims)
                 \<or> (\<exists>(n, v) \<in> set (data_vars ds). dim \<in> set (v_dims v) \<and> v_dims v \<noteq> [dim])
         then Inl Unmodelled
         else
           let levels = map (\<lambda>c. sorted_list_of_set (set c)) crds;
               grid = product_lists levels;
               new_coords = map (\<lambda>(n, lev). (n, \<lparr>c_dim = n, c_values = lev, c_attrs = []\<rparr>))
                              (zip dims levels);
               kept_coords = filter (\<lambda>(n, c). n \<notin> set dims) (coords ds);
               new_vars = map (\<lambda>(n, v). if v_dims v = [dim]
                                 then (n, v\<lparr>v_dims := dims, v_values := regrid index (v_values v) fill grid\<rparr>)
                                 else (n, v)) (data_vars ds)
           in Inr (ds\<lparr>coords := kept_coords @ new_coords, data_vars := new_vars\<rparr>))"

text \<open>
  \<^verbatim>\<open>out.reindex(**indexers)\<close>: every indexer must name a dimension of the unstacked
  variables; their values are looked up by label on the new coordinates.
\<close>

definition index_coords :: "('c, 'v) dataset \<Rightarrow> string list \<Rightarrow> 'c list list option" where
  "index_coords ds dims = map_option (map c_values) (those (map (map_of (coords ds)) dims))"

definition reindex ::
  "'v \<Rightarrow> ('c, 'v) dataset \<Rightarrow> string list \<Rightarrow> 'c coords_file \<Rightarrow> py_error + ('c, 'v) dataset" where
  "reindex fill out dims indexers =
     (if \<exists>(n, c) \<in> set indexers. n \<notin> set dims then Inl ValueError
      else case index_coords out dims of
        None \<Rightarrow> Inl Unmodelled
      | Some old_levels \<Rightarrow>
          let new_levels = map (\<lambda>(d, lev). case map_of indexers d of Some c \<Rightarrow> c_values c | None \<Rightarrow> lev)
                             (zip dims old_levels);
              new_coords = map (\<lambda>(n, c). case map_of indexers n of
                                   Some c' \<Rightarrow> (n, c\<lparr>c_values := c_values c'\<rparr>) | None \<Rightarrow> (n, c)) (coords out);
              new_vars = map (\<lambda>(n, v). if v_dims v = dims
                                then (n, v\<lparr>v_values := regrid (product_lists old_levels) (v_values v) fill
                                                          (product_lists new_levels)\<rparr>)
                                else (n, v)) (data_vars out)
          in Inr (out\<lparr>coords := new_coords, data_vars := new_vars\<rparr>))"

text \<open>The final loop \<^verbatim>\<open>for dim in dims: out[dim].attrs.update(ds[dim].attrs)\<close>.\<close>

definition update_dim_attrs :: "('c, 'v) dataset \<Rightarrow> string list \<Rightarrow> ('c, 'v) dataset \<Rightarrow> ('c, 'v) dataset" where
  "update_dim_attrs ds dims out =
     out\<lparr>coords := map (\<lambda>(n, c). if n \<in> set dims
                           then (n, c\<lparr>c_attrs := dict_update (c_attrs c)
                                    (case map_of (coords ds) n of Some c0 \<Rightarrow> c_attrs c0 | None \<Rightarrow> [])\<rparr>)
                           else (n, c)) (coords out)\<rparr>"

text \<open>
  \<^verbatim>\<open>unstack_fill_nan(ds, dim, coords)\<close>. For a list or tuple the per-point coordinates are
  \<^verbatim>\<open>ds[name]\<close> for the listed names; for every other argument, a \<^verbatim>\<open>dict\<close> included, they
  are the coordinates of \<open>ds\<close> whose only dimension is \<open>dim\<close>. \<^verbatim>\<open>zip(*[])\<close> cannot be
  unpacked into two names: \<open>ValueError\<close>. After unstacking, an argument that is neither a
  list, a tuple nor \<^verbatim>\<open>None\<close> reaches \<^verbatim>\<open>out.reindex(**coords.coords)\<close>: a path has been
  replaced by the opened file, whose coordinates are the indexers; a \<^verbatim>\<open>dict\<close> has no
  attribute \<^verbatim>\<open>coords\<close>, which is an \<open>AttributeError\<close>.
\<close>

definition unstack_fill_nan ::
  "'v \<Rightarrow> (string \<Rightarrow> string \<Rightarrow> string \<Rightarrow> string) \<Rightarrow> (string \<rightharpoonup> 'c coords_file) \<Rightarrow>
   ('c::linorder, 'v) dataset \<Rightarrow> string \<Rightarrow> 'c coords_arg \<Rightarrow> py_error + ('c, 'v) dataset" where
  "unstack_fill_nan fill format fs ds dim coords_arg =
     (case (case coords_arg of
              CoordsNames names \<Rightarrow>
                traverse (\<lambda>name. case map_of (coords ds) name of
                                    Some c \<Rightarrow> if c_dim c = dim then Inr (name, c) else Inl Unmodelled
                                  | None \<Rightarrow> if name \<in> fst ` set (data_vars ds) then Inl Unmodelled
                                            else Inl (KeyError name)) names
            | _ \<Rightarrow> Inr (filter (\<lambda>(name, crd). c_dim crd = dim) (coords ds))) of
        Inl e \<Rightarrow> Inl e
      | Inr sel \<Rightarrow>
          if sel = [] then Inl ValueError
          else
            (case unstack fill ds dim sel of
               Inl e \<Rightarrow> Inl e
             | Inr out \<Rightarrow>
                 (case (case coords_arg of
                          CoordsNone \<Rightarrow> Inr out
                        | CoordsNames names \<Rightarrow> Inr out
                        | CoordsMapping m \<Rightarrow> Inl AttributeError
                        | CoordsPath tpl \<Rightarrow>
                            (let original_shape =
                                   fold (\<lambda>(n, c) acc. case map_of (c_attrs c) ''original_shape'' of
                                                        Some s \<Rightarrow> s | None \<Rightarrow> acc) (coords ds) ''unknown'';
                                 domain = dict_get_default (attrs ds) ''cat:domain'' ''unknown''
                             in case fs (format tpl domain original_shape) of
                                  None \<Rightarrow> Inl (FileNotFoundError (format tpl domain original_shape))
                                | Some file \<Rightarrow> reindex fill out (map fst sel) file)) of
                    Inl e \<Rightarrow> Inl e
                  | Inr out' \<Rightarrow> Inr (update_dim_attrs ds (map fst sel) out'))))"


subsection \<open>The original shape recorded by stack\_drop\_nans\<close>







text \<open>
  A concrete 3 by 4 grid with a checkerboard mask, and a formatter that fills the two
  placeholders of the path template.
\<close>

definition example_format :: "string \<Rightarrow> string \<Rightarrow> string \<Rightarrow> string" where
  "example_format tpl domain shape = str_replace ''{shape}'' shape (str_replace ''{domain}'' domain tpl)"



definition stacked_3x4 :: "(int, int) dataset" where
  "stacked_3x4 =
     \<lparr>attrs = [(''cat:domain'', ''QC'')],
      coords = [(''lat'', \<lparr>c_dim = ''loc'', c_values = [30, 30, 20, 20, 10, 10],
                           c_attrs = [(''units'', ''degrees_north''), (''original_shape'', ''3x4'')]\<rparr>),
                (''lon'', \<lparr>c_dim = ''loc'', c_values = [1, 3, 2, 4, 1, 3],
                           c_attrs = [(''original_shape'', ''3x4'')]\<rparr>)],
      data_vars = [(''tas'', \<lparr>v_dims = [''loc''], v_values = [11, 13, 22, 24, 31, 33],
                              v_attrs = [(''units'', ''K'')]\<rparr>)]\<rparr>"





text \<open>
  C9: the docstring promises "If a dict : a mapping from the name to the array of the coords
  to unstack", and the claim says that such a mapping is used directly. The code never
  returns for a \<^verbatim>\<open>dict\<close>: it takes the per-point coordinates from the dataset as for
  \<^verbatim>\<open>None\<close>, and then evaluates \<^verbatim>\<open>coords.coords\<close> on the \<^verbatim>\<open>dict\<close>. On the stacked 3 by 4 grid
  with the full coordinates as a mapping the call ends in \<open>AttributeError\<close>.
\<close>

theorem unstack_fill_nan_mapping_raises:
  "unstack_fill_nan fill format fs ds dim (CoordsMapping m) \<noteq> Inr out
   \<and> unstack_fill_nan (- 1) example_format Map.empty stacked_3x4 ''loc''
       (CoordsMapping [(''lat'', [30, 20, 10]), (''lon'', [1, 2, 3, 4])]) = Inl AttributeError"
proof
  show "unstack_fill_nan fill format fs ds dim (CoordsMapping m) \<noteq> Inr out"
    by (simp add: unstack_fill_nan_def split: sum.splits)
  show "unstack_fill_nan (- 1) example_format Map.empty stacked_3x4 ''loc''
       (CoordsMapping [(''lat'', [30, 20, 10]), (''lon'', [1, 2, 3, 4])]) = Inl AttributeError"
    by code_simp
qed

subsection \<open>change\_units\<close>

text \<open>
  The unit library (xclim, pint) is a parameter: \<open>units2pint\<close> parses a unit string,
  \<open>time_dim\<close> is \<^verbatim>\<open>.dimensionality.get("[time]")\<close> (a \<^verbatim>\<open>dict.get\<close>, so possibly \<^verbatim>\<open>None\<close>),
  and the three conversions take the variable and the target unit and may raise. The unit of a
  variable is its attribute \<^verbatim>\<open>units\<close>.
\<close>

record ('u, 'v) units_lib =
  units2pint :: "string \<Rightarrow> 'u"
  time_dim :: "'u \<Rightarrow> int option"
  convert_units_to :: "'v var \<Rightarrow> string \<Rightarrow> py_error + 'v var"
  amount2rate :: "'v var \<Rightarrow> string \<Rightarrow> py_error + 'v var"
  rate2amount :: "'v var \<Rightarrow> string \<Rightarrow> py_error + 'v var"

text \<open>\<^verbatim>\<open>ds[v] = ...\<close> with a right-hand side that may raise.\<close>

definition assign_var ::
  "('c, 'v) dataset \<Rightarrow> string \<Rightarrow> py_error + 'v var \<Rightarrow> py_error + ('c, 'v) dataset" where
  "assign_var ds v r =
     (case r of Inl e \<Rightarrow> Inl e
      | Inr x \<Rightarrow> Inr (ds\<lparr>data_vars := dict_set v x (data_vars ds)\<rparr>))"

text \<open>
  The f-string of the \<^verbatim>\<open>NotImplementedError\<close>: it interpolates \<^verbatim>\<open>ds[v].units\<close> and
  \<^verbatim>\<open>variables_and_units[v]\<close>, and nothing else.
\<close>

definition mismatch_message :: "string \<Rightarrow> string \<Rightarrow> string" where
  "mismatch_message src tgt =
     ''No known transformation between '' @ src @ '' and '' @ tgt
       @ '' (temporal dimensionality mismatch).''"

text \<open>
  The body of the loop over \<^verbatim>\<open>variables_and_units\<close> for one variable \<open>v\<close> and its target
  unit. \<^verbatim>\<open>v in ds\<close> also holds for a coordinate name; converting a coordinate is not covered.
  Subtracting when one of the two exponents is \<^verbatim>\<open>None\<close> is a \<open>TypeError\<close>.
\<close>

definition change_units_var ::
  "('u, 'v) units_lib \<Rightarrow> ('c, 'v) dataset \<Rightarrow> string \<Rightarrow> string \<Rightarrow> py_error + ('c, 'v) dataset" where
  "change_units_var lib ds v tgt =
     (case map_of (data_vars ds) v of
        None \<Rightarrow> if v \<in> fst ` set (coords ds) then Inl Unmodelled else Inr ds
      | Some x \<Rightarrow>
          (case map_of (v_attrs x) ''units'' of
             None \<Rightarrow> Inl (KeyError ''units'')
           | Some src \<Rightarrow>
               if units2pint lib src = units2pint lib tgt then Inr ds
               else
                 let time_in_ds = time_dim lib (units2pint lib src);
                     time_in_out = time_dim lib (units2pint lib tgt)
                 in if time_in_ds = time_in_out then assign_var ds v (convert_units_to lib x tgt)
                    else (case (time_in_ds, time_in_out) of
                            (Some a, Some b) \<Rightarrow>
                              if a - b = 1 then assign_var ds v (amount2rate lib x tgt)
                              else if a - b = - 1 then assign_var ds v (rate2amount lib x tgt)
                              else Inl (NotImplementedError (mismatch_message src tgt))
                          | _ \<Rightarrow> Inl TypeError)))"

text \<open>\<^verbatim>\<open>change_units(ds, variables_and_units)\<close>: the loop, in the order of the dictionary.\<close>

fun change_units ::
  "('u, 'v) units_lib \<Rightarrow> ('c, 'v) dataset \<Rightarrow> (string \<times> string) list \<Rightarrow> py_error + ('c, 'v) dataset" where
  "change_units lib ds [] = Inr ds"
| "change_units lib ds ((v, tgt) # rest) =
     (case change_units_var lib ds v tgt of
        Inl e \<Rightarrow> Inl e
      | Inr ds' \<Rightarrow> change_units lib ds' rest)"

text \<open>
  A small unit library and a precipitation series, for the witnesses: units are compared as
  strings and a conversion only rewrites the attribute \<^verbatim>\<open>units\<close>.
\<close>

definition example_units :: "(string, int) units_lib" where
  "example_units =
     \<lparr>units2pint = (\<lambda>u. u),
      time_dim = (\<lambda>u. if u = ''mm d-1'' then Some (- 1) else if u = ''mm d-3'' then Some (- 3) else Some 0),
      convert_units_to = (\<lambda>x u. Inr (x\<lparr>v_attrs := dict_set ''units'' u (v_attrs x)\<rparr>)),
      amount2rate = (\<lambda>x u. Inr (x\<lparr>v_attrs := dict_set ''units'' u (v_attrs x)\<rparr>)),
      rate2amount = (\<lambda>x u. Inr (x\<lparr>v_attrs := dict_set ''units'' u (v_attrs x)\<rparr>))\<rparr>"

definition precip :: "int var" where
  "precip = \<lparr>v_dims = [''time''], v_values = [3, 0, 7], v_attrs = [(''units'', ''mm'')]\<rparr>"

definition precip_ds :: "(int, int) dataset" where
  "precip_ds = \<lparr>attrs = [(''cat:domain'', ''QC'')], coords = [], data_vars = [(''pr'', precip)]\<rparr>"

lemma change_units_head:
  assumes "map_of (data_vars ds) v = Some x" and "map_of (v_attrs x) ''units'' = Some src"
    and "units2pint lib src \<noteq> units2pint lib tgt"
    and "time_dim lib (units2pint lib src) = Some a" and "time_dim lib (units2pint lib tgt) = Some b"
  shows "change_units_var lib ds v tgt =
     (if a = b then assign_var ds v (convert_units_to lib x tgt)
      else if a - b = 1 then assign_var ds v (amount2rate lib x tgt)
      else if a - b = - 1 then assign_var ds v (rate2amount lib x tgt)
      else Inl (NotImplementedError (mismatch_message src tgt)))"
  using assms by (simp add: change_units_var_def)

lemma change_units_Cons:
  "change_units lib ds ((v, tgt) # rest)
   = and_then (change_units_var lib ds v tgt) (\<lambda>ds'. change_units lib ds' rest)"
  by (simp add: and_then_def)

text \<open>
  The loop as a whole. A call on a list of requests is the call on its first part followed,
  if that returned, by the call on the rest. A request changes nothing but the data variable
  it names, so a variable that the requests do not name is the same before and after; and
  whether a request raises depends only on the variable it names.
\<close>

lemma change_units_append:
  "change_units lib ds (xs @ ys) = and_then (change_units lib ds xs) (\<lambda>d. change_units lib d ys)"
  by (induction xs arbitrary: ds) (auto simp: and_then_def split: sum.splits)

lemma change_units_var_frame:
  assumes "change_units_var lib ds v tgt = Inr d"
  shows "coords d = coords ds" and "attrs d = attrs ds"
    and "w \<noteq> v \<Longrightarrow> map_of (data_vars d) w = map_of (data_vars ds) w"
  using assms
  by (auto simp: change_units_var_def assign_var_def Let_def map_of_dict_set
      split: option.splits if_splits sum.splits)

lemma change_units_frame:
  assumes "change_units lib ds reqs = Inr out"
  shows "coords out = coords ds \<and> attrs out = attrs ds
         \<and> (\<forall>w. w \<notin> fst ` set reqs \<longrightarrow> map_of (data_vars out) w = map_of (data_vars ds) w)"
  using assms
proof (induction reqs arbitrary: ds)
  case Nil
  then show ?case by simp
next
  case (Cons r reqs)
  obtain v tgt where r: "r = (v, tgt)" by (cases r)
  from Cons.prems obtain d where d: "change_units_var lib ds v tgt = Inr d"
    and rest: "change_units lib d reqs = Inr out"
    by (auto simp: r split: sum.splits)
  from Cons.IH [OF rest] change_units_var_frame [OF d] show ?case
    by (auto simp: r)
qed

lemma change_units_var_alone:
  assumes "map_of (data_vars cur) v = map_of (data_vars ds) v" and "coords cur = coords ds"
    and "change_units_var lib ds v tgt = Inr d"
  shows "\<exists>c. change_units_var lib cur v tgt = Inr c"
  using assms
  by (auto simp: change_units_var_def assign_var_def Let_def
      split: option.splits if_splits sum.splits)

lemma change_units_returns:
  assumes "distinct (map fst reqs)"
    and "\<forall>(v, tgt) \<in> set reqs. \<exists>d. change_units lib ds [(v, tgt)] = Inr d"
    and "\<forall>v \<in> fst ` set reqs. map_of (data_vars cur) v = map_of (data_vars ds) v"
    and "coords cur = coords ds"
  shows "\<exists>out. change_units lib cur reqs = Inr out"
  using assms
proof (induction reqs arbitrary: cur)
  case Nil
  then show ?case by simp
next
  case (Cons r reqs)
  obtain v tgt where r: "r = (v, tgt)" by (cases r)
  from Cons.prems(2) obtain d where "change_units_var lib ds v tgt = Inr d"
    by (auto simp: r split: sum.splits)
  moreover have "map_of (data_vars cur) v = map_of (data_vars ds) v"
    using Cons.prems(3) by (simp add: r)
  ultimately obtain c where c: "change_units_var lib cur v tgt = Inr c"
    using change_units_var_alone [OF _ Cons.prems(4)] by blast
  have v: "v \<notin> fst ` set reqs"
    using Cons.prems(1) by (simp add: r image_iff)
  have "\<forall>w \<in> fst ` set reqs. map_of (data_vars c) w = map_of (data_vars ds) w"
  proof
    fix w assume w: "w \<in> fst ` set reqs"
    with v have "w \<noteq> v" by auto
    then have "map_of (data_vars c) w = map_of (data_vars cur) w"
      by (rule change_units_var_frame(3) [OF c])
    also have "\<dots> = map_of (data_vars ds) w"
      using Cons.prems(3) w by (auto simp: r)
    finally show "map_of (data_vars c) w = map_of (data_vars ds) w" .
  qed
  moreover have "coords c = coords ds"
    using change_units_var_frame(1) [OF c] Cons.prems(4) by simp
  moreover have "distinct (map fst reqs)"
    and "\<forall>(v, tgt) \<in> set reqs. \<exists>d. change_units lib ds [(v, tgt)] = Inr d"
    using Cons.prems(1,2) by simp_all
  ultimately obtain out where "change_units lib c reqs = Inr out"
    using Cons.IH [of c] by blast
  with c show ?case by (simp add: r)
qed

lemma change_units_at:
  assumes "v \<notin> fst ` set before"
    and "map_of (data_vars ds) v = Some x" and "map_of (v_attrs x) ''units'' = Some src"
    and "units2pint lib src \<noteq> units2pint lib tgt"
    and "time_dim lib (units2pint lib src) = Some a" and "time_dim lib (units2pint lib tgt) = Some b"
  shows "change_units lib ds (before @ (v, tgt) # rest)
         = and_then (change_units lib ds before)
             (\<lambda>d. if a = b
                   then and_then (assign_var d v (convert_units_to lib x tgt)) (\<lambda>d'. change_units lib d' rest)
                   else if a - b = 1
                   then and_then (assign_var d v (amount2rate lib x tgt)) (\<lambda>d'. change_units lib d' rest)
                   else if a - b = - 1
                   then and_then (assign_var d v (rate2amount lib x tgt)) (\<lambda>d'. change_units lib d' rest)
                   else Inl (NotImplementedError (mismatch_message src tgt)))"
proof (cases "change_units lib ds before")
  case (Inl e)
  then show ?thesis by (simp add: change_units_append and_then_def)
next
  case (Inr d)
  from change_units_frame [OF Inr] assms(1,2) have "map_of (data_vars d) v = Some x"
    by simp
  note h = change_units_head [OF this assms(3-6)]
  show ?thesis
    by (simp add: change_units_append Inr and_then_def h)
qed

lemma assign_var_Inr:
  "assign_var d v r = Inr d' \<Longrightarrow> \<exists>y. r = Inr y \<and> map_of (data_vars d') v = Some y"
  by (auto simp: assign_var_def map_of_dict_set split: sum.splits)

lemma change_units_converted:
  assumes "change_units lib ds before = Inr d"
    and "and_then (assign_var d v r) (\<lambda>d'. change_units lib d' rest) = Inr out"
    and "v \<notin> fst ` set rest"
  shows "\<exists>y. r = Inr y \<and> map_of (data_vars out) v = Some y"
proof -
  from assms(2) obtain d' where d': "assign_var d v r = Inr d'"
    and out: "change_units lib d' rest = Inr out"
    by (auto simp: and_then_def split: sum.splits)
  from assign_var_Inr [OF d'] obtain y where "r = Inr y" "map_of (data_vars d') v = Some y"
    by blast
  with change_units_frame [OF out] assms(3) show ?thesis by simp
qed

text \<open>
  A dataset with a temperature and a precipitation series, and a call that asks for the
  temperature in the unit it has and for the precipitation as a rate.
\<close>

definition tas_pr_ds :: "(int, int) dataset" where
  "tas_pr_ds =
     \<lparr>attrs = [],
      coords = [],
      data_vars = [(''tas'', \<lparr>v_dims = [''time''], v_values = [271, 274, 280], v_attrs = [(''units'', ''K'')]\<rparr>),
                   (''pr'', precip)]\<rparr>"

text \<open>
  C4: for every request of the call, wherever it stands among the requests, that names a
  data variable of the dataset whose unit differs from the target, with time exponents \<open>a\<close>
  (source) and \<open>b\<close> (target): the loop first handles the requests before it; if that did not
  raise, \<open>a = b\<close> assigns the direct conversion \<^verbatim>\<open>convert_units_to\<close> of the variable,
  \<open>a - b = 1\<close> assigns \<^verbatim>\<open>amount2rate\<close>, \<open>a - b = -1\<close> assigns \<^verbatim>\<open>rate2amount\<close>; and the loop
  goes on with the remaining requests. So whenever the call returns, the variable of the
  result is the value of that conversion; and the call does return when the selected
  conversion returns and each other request, made alone, returns.
\<close>

theorem change_units_conversion_kind:
  assumes "distinct (map fst (before @ (v, tgt) # rest))"
    and "map_of (data_vars ds) v = Some x" and "map_of (v_attrs x) ''units'' = Some src"
    and "units2pint lib src \<noteq> units2pint lib tgt"
    and "time_dim lib (units2pint lib src) = Some a" and "time_dim lib (units2pint lib tgt) = Some b"
  shows "(a = b \<longrightarrow>
            change_units lib ds (before @ (v, tgt) # rest)
            = and_then (change_units lib ds before)
                (\<lambda>d. and_then (assign_var d v (convert_units_to lib x tgt)) (\<lambda>d'. change_units lib d' rest))
          \<and> (\<forall>out. change_units lib ds (before @ (v, tgt) # rest) = Inr out \<longrightarrow>
                (\<exists>y. convert_units_to lib x tgt = Inr y \<and> map_of (data_vars out) v = Some y))
          \<and> ((\<exists>y. convert_units_to lib x tgt = Inr y)
              \<and> (\<forall>(v', tgt') \<in> set (before @ rest). \<exists>d. change_units lib ds [(v', tgt')] = Inr d)
              \<longrightarrow> (\<exists>out. change_units lib ds (before @ (v, tgt) # rest) = Inr out)))
       \<and> (a - b = 1 \<longrightarrow>
            change_units lib ds (before @ (v, tgt) # rest)
            = and_then (change_units lib ds before)
                (\<lambda>d. and_then (assign_var d v (amount2rate lib x tgt)) (\<lambda>d'. change_units lib d' rest))
          \<and> (\<forall>out. change_units lib ds (before @ (v, tgt) # rest) = Inr out \<longrightarrow>
                (\<exists>y. amount2rate lib x tgt = Inr y \<and> map_of (data_vars out) v = Some y))
          \<and> ((\<exists>y. amount2rate lib x tgt = Inr y)
              \<and> (\<forall>(v', tgt') \<in> set (before @ rest). \<exists>d. change_units lib ds [(v', tgt')] = Inr d)
              \<longrightarrow> (\<exists>out. change_units lib ds (before @ (v, tgt) # rest) = Inr out)))
       \<and> (a - b = - 1 \<longrightarrow>
            change_units lib ds (before @ (v, tgt) # rest)
            = and_then (change_units lib ds before)
                (\<lambda>d. and_then (assign_var d v (rate2amount lib x tgt)) (\<lambda>d'. change_units lib d' rest))
          \<and> (\<forall>out. change_units lib ds (before @ (v, tgt) # rest) = Inr out \<longrightarrow>
                (\<exists>y. rate2amount lib x tgt = Inr y \<and> map_of (data_vars out) v = Some y))
          \<and> ((\<exists>y. rate2amount lib x tgt = Inr y)
              \<and> (\<forall>(v', tgt') \<in> set (before @ rest). \<exists>d. change_units lib ds [(v', tgt')] = Inr d)
              \<longrightarrow> (\<exists>out. change_units lib ds (before @ (v, tgt) # rest) = Inr out)))"
proof -
  have vb: "v \<notin> fst ` set before" and vr: "v \<notin> fst ` set rest"
    using assms(1) by (auto simp: image_iff)
  note at = change_units_at [OF vb assms(2-6), of rest]
  have conv: "\<exists>y. r = Inr y \<and> map_of (data_vars out) v = Some y"
    if "change_units lib ds (before @ (v, tgt) # rest) = Inr out"
      and "change_units lib ds (before @ (v, tgt) # rest)
           = and_then (change_units lib ds before)
               (\<lambda>d. and_then (assign_var d v r) (\<lambda>d'. change_units lib d' rest))"
    for r out
  proof -
    from that obtain d where d: "change_units lib ds before = Inr d"
      and "and_then (assign_var d v r) (\<lambda>d'. change_units lib d' rest) = Inr out"
      by (auto simp: and_then_def split: sum.splits)
    then show ?thesis using change_units_converted [OF _ _ vr] by blast
  qed
  have ret: "\<exists>out. change_units lib ds (before @ (v, tgt) # rest) = Inr out"
    if r: "r = Inr y"
      and alone: "\<forall>(v', tgt') \<in> set (before @ rest). \<exists>d. change_units lib ds [(v', tgt')] = Inr d"
      and eq: "change_units lib ds (before @ (v, tgt) # rest)
           = and_then (change_units lib ds before)
               (\<lambda>d. and_then (assign_var d v r) (\<lambda>d'. change_units lib d' rest))"
    for r y
  proof -
    have "distinct (map fst before)" using assms(1) by simp
    moreover have "\<forall>(v', tgt') \<in> set before. \<exists>d. change_units lib ds [(v', tgt')] = Inr d"
      using alone by auto
    ultimately obtain d where d: "change_units lib ds before = Inr d"
      using change_units_returns [of before lib ds ds] by auto
    define d' where "d' = d\<lparr>data_vars := dict_set v y (data_vars d)\<rparr>"
    have a: "assign_var d v r = Inr d'"
      by (simp add: assign_var_def r d'_def)
    have fr: "coords d = coords ds"
      "\<forall>w. w \<notin> fst ` set before \<longrightarrow> map_of (data_vars d) w = map_of (data_vars ds) w"
      using change_units_frame [OF d] by simp_all
    have "\<forall>w \<in> fst ` set rest. map_of (data_vars d') w = map_of (data_vars ds) w"
    proof
      fix w assume w: "w \<in> fst ` set rest"
      with assms(1) have "w \<noteq> v" and "w \<notin> fst ` set before"
        by (auto simp: image_iff)
      with fr(2) show "map_of (data_vars d') w = map_of (data_vars ds) w"
        by (simp add: d'_def map_of_dict_set)
    qed
    moreover have "coords d' = coords ds" using fr(1) by (simp add: d'_def)
    moreover have "distinct (map fst rest)" using assms(1) by simp
    moreover have "\<forall>(v', tgt') \<in> set rest. \<exists>d. change_units lib ds [(v', tgt')] = Inr d"
      using alone by auto
    ultimately obtain out where "change_units lib d' rest = Inr out"
      using change_units_returns [of rest lib ds d'] by blast
    with d a show ?thesis by (simp add: eq and_then_def)
  qed
  have c1: "a = b \<Longrightarrow> change_units lib ds (before @ (v, tgt) # rest)
            = and_then (change_units lib ds before)
                (\<lambda>d. and_then (assign_var d v (convert_units_to lib x tgt)) (\<lambda>d'. change_units lib d' rest))"
    using at by simp
  have c2: "a - b = 1 \<Longrightarrow> change_units lib ds (before @ (v, tgt) # rest)
            = and_then (change_units lib ds before)
                (\<lambda>d. and_then (assign_var d v (amount2rate lib x tgt)) (\<lambda>d'. change_units lib d' rest))"
    using at by simp
  have c3: "a - b = - 1 \<Longrightarrow> change_units lib ds (before @ (v, tgt) # rest)
            = and_then (change_units lib ds before)
                (\<lambda>d. and_then (assign_var d v (rate2amount lib x tgt)) (\<lambda>d'. change_units lib d' rest))"
    using at by simp
  show ?thesis
  proof (intro conjI impI allI)
    assume "a = b"
    then show "change_units lib ds (before @ (v, tgt) # rest)
            = and_then (change_units lib ds before)
                (\<lambda>d. and_then (assign_var d v (convert_units_to lib x tgt)) (\<lambda>d'. change_units lib d' rest))"
      by (rule c1)
  next
    fix out assume "a = b" and "change_units lib ds (before @ (v, tgt) # rest) = Inr out"
    then show "\<exists>y. convert_units_to lib x tgt = Inr y \<and> map_of (data_vars out) v = Some y"
      using conv c1 by blast
  next
    assume "a = b" and "(\<exists>y. convert_units_to lib x tgt = Inr y)
              \<and> (\<forall>(v', tgt') \<in> set (before @ rest). \<exists>d. change_units lib ds [(v', tgt')] = Inr d)"
    then show "\<exists>out. change_units lib ds (before @ (v, tgt) # rest) = Inr out"
      using ret c1 by blast
  next
    assume "a - b = 1"
    then show "change_units lib ds (before @ (v, tgt) # rest)
            = and_then (change_units lib ds before)
                (\<lambda>d. and_then (assign_var d v (amount2rate lib x tgt)) (\<lambda>d'. change_units lib d' rest))"
      by (rule c2)
  next
    fix out assume "a - b = 1" and "change_units lib ds (before @ (v, tgt) # rest) = Inr out"
    then show "\<exists>y. amount2rate lib x tgt = Inr y \<and> map_of (data_vars out) v = Some y"
      using conv c2 by blast
  next
    assume "a - b = 1" and "(\<exists>y. amount2rate lib x tgt = Inr y)
              \<and> (\<forall>(v', tgt') \<in> set (before @ rest). \<exists>d. change_units lib ds [(v', tgt')] = Inr d)"
    then show "\<exists>out. change_units lib ds (before @ (v, tgt) # rest) = Inr out"
      using ret c2 by blast
  next
    assume "a - b = - 1"
    then show "change_units lib ds (before @ (v, tgt) # rest)
            = and_then (change_units lib ds before)
                (\<lambda>d. and_then (assign_var d v (rate2amount lib x tgt)) (\<lambda>d'. change_units lib d' rest))"
      by (rule c3)
  next
    fix out assume "a - b = - 1" and "change_units lib ds (before @ (v, tgt) # rest) = Inr out"
    then show "\<exists>y. rate2amount lib x tgt = Inr y \<and> map_of (data_vars out) v = Some y"
      using conv c3 by blast
  next
    assume "a - b = - 1" and "(\<exists>y. rate2amount lib x tgt = Inr y)
              \<and> (\<forall>(v', tgt') \<in> set (before @ rest). \<exists>d. change_units lib ds [(v', tgt')] = Inr d)"
    then show "\<exists>out. change_units lib ds (before @ (v, tgt) # rest) = Inr out"
      using ret c3 by blast
  qed
qed

theorem change_units_conversion_kind_witness:
  "distinct (map fst ([(''tas'', ''K'')] @ (''pr'', ''mm d-1'') # []))
   \<and> map_of (data_vars tas_pr_ds) ''pr'' = Some precip
   \<and> map_of (v_attrs precip) ''units'' = Some ''mm''
   \<and> units2pint example_units ''mm'' \<noteq> units2pint example_units ''mm d-1''
   \<and> time_dim example_units (units2pint example_units ''mm'') = Some 0
   \<and> time_dim example_units (units2pint example_units ''mm d-1'') = Some (- 1)
   \<and> (0::int) - (- 1) = 1
   \<and> (\<exists>y. amount2rate example_units precip ''mm d-1'' = Inr y)
   \<and> list_all (\<lambda>(v', tgt'). \<exists>d. change_units example_units tas_pr_ds [(v', tgt')] = Inr d)
        ([(''tas'', ''K'')] @ [])
   \<and> (\<exists>out y. change_units example_units tas_pr_ds ([(''tas'', ''K'')] @ (''pr'', ''mm d-1'') # []) = Inr out
         \<and> amount2rate example_units precip ''mm d-1'' = Inr y
         \<and> map_of (data_vars out) ''pr'' = Some y
         \<and> y = precip\<lparr>v_attrs := [(''units'', ''mm d-1'')]\<rparr>)"
proof -
  have h0: "distinct (map fst ([(''tas'', ''K'')] @ (''pr'', ''mm d-1'') # []))"
    by simp
  have h1: "map_of (data_vars tas_pr_ds) ''pr'' = Some precip"
    by (simp add: tas_pr_ds_def)
  have h2: "map_of (v_attrs precip) ''units'' = Some ''mm''"
    by (simp add: precip_def)
  have h3: "units2pint example_units ''mm'' \<noteq> units2pint example_units ''mm d-1''"
    by (simp add: example_units_def)
  have h4: "time_dim example_units (units2pint example_units ''mm'') = Some 0"
    by (simp add: example_units_def)
  have h5: "time_dim example_units (units2pint example_units ''mm d-1'') = Some (- 1)"
    by (simp add: example_units_def)
  have h6: "(0::int) - (- 1) = 1" by simp
  have hy: "amount2rate example_units precip ''mm d-1'' = Inr (precip\<lparr>v_attrs := [(''units'', ''mm d-1'')]\<rparr>)"
    by (simp add: example_units_def precip_def dict_set_def)
  then have hy': "\<exists>y. amount2rate example_units precip ''mm d-1'' = Inr y" ..
  have alone: "\<forall>(v', tgt') \<in> set ([(''tas'', ''K'')] @ []).
                 \<exists>d. change_units example_units tas_pr_ds [(v', tgt')] = Inr d"
    by (simp add: change_units_var_def tas_pr_ds_def example_units_def)
  then have alone': "list_all (\<lambda>(v', tgt'). \<exists>d. change_units example_units tas_pr_ds [(v', tgt')] = Inr d)
        ([(''tas'', ''K'')] @ [])"
    by (simp only: list_all_iff)
  note t = change_units_conversion_kind [OF h0 h1 h2 h3 h4 h5]
  note m = t [THEN conjunct2, THEN conjunct1, THEN mp, OF h6]
  note ret = m [THEN conjunct2, THEN conjunct2, THEN mp, OF conjI [OF hy' alone]]
  from ret obtain out where
    o: "change_units example_units tas_pr_ds ([(''tas'', ''K'')] @ (''pr'', ''mm d-1'') # []) = Inr out" ..
  note cv = m [THEN conjunct2, THEN conjunct1, THEN spec, THEN mp, OF o]
  from cv obtain y where
    y: "amount2rate example_units precip ''mm d-1'' = Inr y \<and> map_of (data_vars out) ''pr'' = Some y" ..
  from y hy have yy: "y = precip\<lparr>v_attrs := [(''units'', ''mm d-1'')]\<rparr>"
    by simp
  have ex: "\<exists>out y. change_units example_units tas_pr_ds ([(''tas'', ''K'')] @ (''pr'', ''mm d-1'') # []) = Inr out
         \<and> amount2rate example_units precip ''mm d-1'' = Inr y
         \<and> map_of (data_vars out) ''pr'' = Some y
         \<and> y = precip\<lparr>v_attrs := [(''units'', ''mm d-1'')]\<rparr>"
    using o y yy by blast
  show ?thesis
    by (intro conjI) (rule h0, rule h1, rule h2, rule h3, rule h4, rule h5, rule h6, rule hy',
        rule alone', rule ex)
qed

text \<open>
  C5, as stated, fails on the content of the message: converting \<^verbatim>\<open>pr\<close> from \<^verbatim>\<open>mm\<close> to a
  unit three powers of time away raises, but the message does not contain the name of the
  variable.
\<close>

theorem change_units_message_counterexample:
  "change_units example_units precip_ds [(''pr'', ''mm d-3'')]
     = Inl (NotImplementedError
         ''No known transformation between mm and mm d-3 (temporal dimensionality mismatch).'')
   \<and> \<not> sublist ''pr'' ''No known transformation between mm and mm d-3 (temporal dimensionality mismatch).''"
  by code_simp

text \<open>
  C5 (amended): when the time exponents of source and target differ by something other than
  0, +1 or -1, \<open>change_units\<close> raises \<^verbatim>\<open>NotImplementedError\<close> with the message
  "No known transformation between SOURCE and TARGET (temporal dimensionality mismatch).",
  which names the source unit and the target unit (and not the variable).
\<close>

theorem change_units_mismatch_raises:
  assumes "map_of (data_vars ds) v = Some x" and "map_of (v_attrs x) ''units'' = Some src"
    and "units2pint lib src \<noteq> units2pint lib tgt"
    and "time_dim lib (units2pint lib src) = Some a" and "time_dim lib (units2pint lib tgt) = Some b"
    and "a - b \<noteq> 0" and "a - b \<noteq> 1" and "a - b \<noteq> - 1"
  shows "change_units lib ds ((v, tgt) # rest)
         = Inl (NotImplementedError (''No known transformation between '' @ src @ '' and '' @ tgt
                  @ '' (temporal dimensionality mismatch).''))
       \<and> sublist src (mismatch_message src tgt) \<and> sublist tgt (mismatch_message src tgt)"
proof -
  have "change_units lib ds ((v, tgt) # rest) = Inl (NotImplementedError (mismatch_message src tgt))"
    unfolding change_units_Cons change_units_head [OF assms(1-5)]
    using assms(6-8) by (simp add: and_then_def)
  moreover have "sublist src (mismatch_message src tgt)"
    unfolding mismatch_message_def sublist_def by blast
  moreover have "sublist tgt (mismatch_message src tgt)"
    unfolding mismatch_message_def sublist_def
    by (metis append.assoc)
  ultimately show ?thesis by (simp add: mismatch_message_def)
qed

theorem change_units_mismatch_raises_witness:
  "map_of (data_vars precip_ds) ''pr'' = Some precip
   \<and> map_of (v_attrs precip) ''units'' = Some ''mm''
   \<and> units2pint example_units ''mm'' \<noteq> units2pint example_units ''mm d-3''
   \<and> time_dim example_units (units2pint example_units ''mm'') = Some 0
   \<and> time_dim example_units (units2pint example_units ''mm d-3'') = Some (- 3)
   \<and> (0::int) - (- 3) \<noteq> 0 \<and> (0::int) - (- 3) \<noteq> 1 \<and> (0::int) - (- 3) \<noteq> - 1
   \<and> change_units example_units precip_ds [(''pr'', ''mm d-3'')]
     = Inl (NotImplementedError (''No known transformation between '' @ ''mm'' @ '' and '' @ ''mm d-3''
              @ '' (temporal dimensionality mismatch).''))
   \<and> sublist ''mm'' (mismatch_message ''mm'' ''mm d-3'')
   \<and> sublist ''mm d-3'' (mismatch_message ''mm'' ''mm d-3'')"
proof -
  have h1: "map_of (data_vars precip_ds) ''pr'' = Some precip"
    by (simp add: precip_ds_def)
  have h2: "map_of (v_attrs precip) ''units'' = Some ''mm''"
    by (simp add: precip_def)
  have h3: "units2pint example_units ''mm'' \<noteq> units2pint example_units ''mm d-3''"
    by (simp add: example_units_def)
  have h4: "time_dim example_units (units2pint example_units ''mm'') = Some 0"
    by (simp add: example_units_def)
  have h5: "time_dim example_units (units2pint example_units ''mm d-3'') = Some (- 3)"
    by (simp add: example_units_def)
  have h6: "(0::int) - (- 3) \<noteq> 0" and h7: "(0::int) - (- 3) \<noteq> 1" and h8: "(0::int) - (- 3) \<noteq> - 1"
    by simp_all
  from change_units_mismatch_raises [OF h1 h2 h3 h4 h5 h6 h7 h8, of "[]"] h1 h2 h3 h4 h5
  show ?thesis by simp
qed


subsection \<open>clean\_up\<close>

text \<open>
  The inner function \<^verbatim>\<open>_search(a, b)\<close>; \<^verbatim>\<open>a[-1]\<close> raises \<open>IndexError\<close> on an empty
  pattern.
\<close>

definition search :: "string \<Rightarrow> string \<Rightarrow> py_error + bool" where
  "search a b =
     (if a = [] then Inl IndexError
      else if last a = CHR ''*'' then Inr (sublist (butlast a) b)
      else if hd a = CHR ''^'' then Inr (prefix (tl a) b)
      else Inr (a = b))"

text \<open>
  The keyword arguments of \<^verbatim>\<open>maybe_unstack\<close> as passed in \<^verbatim>\<open>maybe_unstack_dict\<close>, with the
  defaults of the signature for absent keys; the datasets of \<^verbatim>\<open>common_attrs_only\<close>, live or
  as paths; the library functions that \<open>clean_up\<close> calls, as parameters; and the keyword
  arguments of \<open>clean_up\<close> itself, \<^verbatim>\<open>None\<close> being \<open>None\<close>. (\<^verbatim>\<open>common_attrs_open_kwargs\<close> is
  only handed to \<^verbatim>\<open>xr.open_dataset\<close> and is part of the parameter \<open>open_dataset\<close>; the
  decorator \<^verbatim>\<open>parse_config\<close> is not part of the function bodies embedded here.)
\<close>

record 'c maybe_unstack_args =
  mu_coords :: "'c coords_arg"
  mu_rechunk :: "(string \<times> int) list option"
  mu_stack_drop_nans :: bool

datatype ('c, 'v) dataset_source = DsPath string | DsLive "('c, 'v) dataset"

record ('c, 'v) xr_lib =
  na_fill :: 'v
  str_format :: "string \<Rightarrow> string \<Rightarrow> string \<Rightarrow> string"
  coords_files :: "string \<rightharpoonup> 'c coords_file"
  get_calendar :: "('c, 'v) dataset \<Rightarrow> string"
  convert_calendar :: "('c, 'v) dataset \<Rightarrow> (string \<times> pyval) list \<Rightarrow> py_error + ('c, 'v) dataset"
  where_not_ocean :: "('c, 'v) dataset \<Rightarrow> ('c, 'v) dataset \<Rightarrow> ('c, 'v) dataset"
  interpolate_na :: "'v var \<Rightarrow> py_error + 'v var"
  fill_missing :: "pyval \<Rightarrow> 'v var \<Rightarrow> 'v var"
  chunk :: "(string \<times> int) list \<Rightarrow> ('c, 'v) dataset \<Rightarrow> ('c, 'v) dataset"
  round_values :: "int \<Rightarrow> 'v var \<Rightarrow> 'v var"
  open_dataset :: "string \<Rightarrow> py_error + ('c, 'v) dataset"
  generate_id :: "('c, 'v) dataset \<Rightarrow> py_error + string"

record ('c, 'v) clean_up_args =
  variables_and_units :: "(string \<times> string) list option"
  convert_calendar_kwargs :: "(string \<times> pyval) list option"
  missing_by_var :: "(string \<times> pyval) list option"
  maybe_unstack_dict :: "'c maybe_unstack_args option"
  round_var :: "(string \<times> int) list option"
  common_attrs_only :: "('c, 'v) dataset_source list option"
  attrs_to_remove :: "(string \<times> string list) list option"
  remove_all_attrs_except :: "(string \<times> string list) list option"
  add_attrs :: "(string \<times> attrs) list option"
  change_attr_prefix :: "string option"
  to_level :: "string option"

definition maybe_unstack ::
  "('c::linorder, 'v) xr_lib \<Rightarrow> ('c, 'v) dataset \<Rightarrow> 'c maybe_unstack_args \<Rightarrow> py_error + ('c, 'v) dataset" where
  "maybe_unstack lib ds a =
     (if mu_stack_drop_nans a
      then (case unstack_fill_nan (na_fill lib) (str_format lib) (coords_files lib) ds ''loc'' (mu_coords a) of
              Inl e \<Rightarrow> Inl e
            | Inr ds' \<Rightarrow> (case mu_rechunk a of None \<Rightarrow> Inr ds' | Some r \<Rightarrow> Inr (chunk lib r ds')))
      else Inr ds)"

text \<open>
  \<^verbatim>\<open>if x:\<close> for an optional dictionary, list or string: neither \<^verbatim>\<open>None\<close> nor empty.
  \<open>when_given\<close> runs a stage under that test.
\<close>

definition given :: "'a list option \<Rightarrow> bool" where
  "given x = (case x of None \<Rightarrow> False | Some d \<Rightarrow> d \<noteq> [])"

definition when_given ::
  "'a list option \<Rightarrow> ('a list \<Rightarrow> 'd \<Rightarrow> py_error + 'd) \<Rightarrow> 'd \<Rightarrow> py_error + 'd" where
  "when_given x f ds = (case x of None \<Rightarrow> Inr ds | Some d \<Rightarrow> if d \<noteq> [] then f d ds else Inr ds)"


text \<open>
  The calendar stage. The loop over \<^verbatim>\<open>missing_by_var\<close> replaces each variable by its
  interpolation or by the variable with the sentinel replaced and its attributes restored.
\<close>

fun fill_by_var ::
  "('c, 'v) xr_lib \<Rightarrow> (string \<times> pyval) list \<Rightarrow> ('c, 'v) dataset \<Rightarrow> py_error + ('c, 'v) dataset" where
  "fill_by_var lib [] ds = Inr ds"
| "fill_by_var lib ((var, missing) # rest) ds =
     (case map_of (data_vars ds) var of
        None \<Rightarrow> if var \<in> fst ` set (coords ds) then Inl Unmodelled else Inl (KeyError var)
      | Some x \<Rightarrow>
          and_then (if missing = PStr ''interpolate'' then interpolate_na lib x
                    else Inr ((fill_missing lib missing x)\<lparr>v_attrs := v_attrs x\<rparr>))
            (\<lambda>y. fill_by_var lib rest (ds\<lparr>data_vars := dict_set var y (data_vars ds)\<rparr>)))"

definition convert_calendar_stage ::
  "('c, 'v) xr_lib \<Rightarrow> (string \<times> pyval) list option \<Rightarrow> (string \<times> pyval) list \<Rightarrow>
   ('c, 'v) dataset \<Rightarrow> py_error + ('c, 'v) dataset" where
  "convert_calendar_stage lib missing kwargs ds =
     (if given missing \<and> \<not> list_all (\<lambda>k. k \<in> fst ` set (case missing of Some m \<Rightarrow> m | None \<Rightarrow> []))
                                     (map fst (data_vars ds))
      then Inl ValueError
      else
        let kw1 = (if given missing then dict_set ''missing'' (PInt (- 9999)) kwargs else kwargs);
            kw2 = (if get_calendar lib ds = ''360_day'' \<and> ''align_on'' \<notin> fst ` set kw1
                   then dict_set ''align_on'' (PStr ''random'') kw1 else kw1)
        in and_then (convert_calendar lib ds kw2)
             (\<lambda>conv. when_given missing (fill_by_var lib) (where_not_ocean lib ds conv)))"

text \<open>The rounding stage, and the reduction to the attributes common to all datasets.\<close>

fun round_stage ::
  "('c, 'v) xr_lib \<Rightarrow> (string \<times> int) list \<Rightarrow> ('c, 'v) dataset \<Rightarrow> py_error + ('c, 'v) dataset" where
  "round_stage lib [] ds = Inr ds"
| "round_stage lib ((var, n) # rest) ds =
     (case map_of (data_vars ds) var of
        None \<Rightarrow> if var \<in> fst ` set (coords ds) then Inl Unmodelled else Inl (KeyError var)
      | Some x \<Rightarrow> round_stage lib rest (ds\<lparr>data_vars := dict_set var (round_values lib n x) (data_vars ds)\<rparr>))"

definition keep_common :: "attrs \<Rightarrow> attrs \<Rightarrow> attrs" where
  "keep_common other a =
     filter (\<lambda>(a_key, a_val). \<not> (a_key \<notin> fst ` set other
                                  \<or> a_key \<in> set [''cat:date_start'', ''cat:date_end'']
                                  \<or> Some a_val \<noteq> map_of other a_key)) a"

fun common_attrs_loop ::
  "('c, 'v) xr_lib \<Rightarrow> ('c, 'v) dataset_source list \<Rightarrow> ('c, 'v) dataset \<Rightarrow> py_error + ('c, 'v) dataset" where
  "common_attrs_loop lib [] ds = Inr ds"
| "common_attrs_loop lib (src # rest) ds =
     and_then (case src of DsPath p \<Rightarrow> open_dataset lib p | DsLive d \<Rightarrow> Inr d)
       (\<lambda>other. common_attrs_loop lib rest (ds\<lparr>attrs := keep_common (attrs other) (attrs ds)\<rparr>))"

definition common_attrs_stage ::
  "('c, 'v) xr_lib \<Rightarrow> ('c, 'v) dataset_source list \<Rightarrow> ('c, 'v) dataset \<Rightarrow> py_error + ('c, 'v) dataset" where
  "common_attrs_stage lib srcs ds =
     and_then (common_attrs_loop lib srcs ds)
       (\<lambda>ds'. and_then (generate_id lib ds')
                 (\<lambda>new_id. Inr (ds'\<lparr>attrs := dict_set ''cat:id'' new_id (attrs ds')\<rparr>)))"

text \<open>
  \<^verbatim>\<open>obj = ds if var == "global" else ds[var]\<close>, read and written through \<^verbatim>\<open>obj.attrs\<close>.
\<close>

definition obj_attrs :: "('c, 'v) dataset \<Rightarrow> string \<Rightarrow> py_error + attrs" where
  "obj_attrs ds var =
     (if var = ''global'' then Inr (attrs ds)
      else case map_of (data_vars ds) var of
             Some x \<Rightarrow> Inr (v_attrs x)
           | None \<Rightarrow> (case map_of (coords ds) var of
                        Some c \<Rightarrow> Inr (c_attrs c)
                      | None \<Rightarrow> Inl (KeyError var)))"

definition set_obj_attrs :: "('c, 'v) dataset \<Rightarrow> string \<Rightarrow> attrs \<Rightarrow> ('c, 'v) dataset" where
  "set_obj_attrs ds var a =
     (if var = ''global'' then ds\<lparr>attrs := a\<rparr>
      else if var \<in> fst ` set (data_vars ds)
      then ds\<lparr>data_vars := map (\<lambda>(n, x). if n = var then (n, x\<lparr>v_attrs := a\<rparr>) else (n, x)) (data_vars ds)\<rparr>
      else ds\<lparr>coords := map (\<lambda>(n, c). if n = var then (n, c\<lparr>c_attrs := a\<rparr>) else (n, c)) (coords ds)\<rparr>)"

fun for_each_obj ::
  "('p \<Rightarrow> attrs \<Rightarrow> py_error + attrs) \<Rightarrow> (string \<times> 'p) list \<Rightarrow> ('c, 'v) dataset \<Rightarrow>
   py_error + ('c, 'v) dataset" where
  "for_each_obj f [] ds = Inr ds"
| "for_each_obj f ((var, p) # rest) ds =
     and_then (obj_attrs ds var)
       (\<lambda>a. and_then (f p a) (\<lambda>a'. for_each_obj f rest (set_obj_attrs ds var a')))"

text \<open>
  Attribute removal. The inner loop over the patterns has no \<^verbatim>\<open>break\<close>: a second pattern
  that matches an attribute already deleted raises \<open>KeyError\<close> at \<^verbatim>\<open>del\<close>. The outer loops
  run over a snapshot of the keys, \<^verbatim>\<open>list(obj.attrs.keys())\<close>.
\<close>

fun remove_if_listed :: "string list \<Rightarrow> string \<Rightarrow> attrs \<Rightarrow> py_error + attrs" where
  "remove_if_listed [] ds_attr a = Inr a"
| "remove_if_listed (list_attr # rest) ds_attr a =
     and_then (search list_attr ds_attr)
       (\<lambda>hit. if hit then (if ds_attr \<in> fst ` set a
                           then remove_if_listed rest ds_attr (dict_remove ds_attr a)
                           else Inl (KeyError ds_attr))
              else remove_if_listed rest ds_attr a)"

fun for_each_key :: "(string \<Rightarrow> attrs \<Rightarrow> py_error + attrs) \<Rightarrow> string list \<Rightarrow> attrs \<Rightarrow> py_error + attrs" where
  "for_each_key f [] a = Inr a"
| "for_each_key f (ds_attr # rest) a = and_then (f ds_attr a) (for_each_key f rest)"

definition remove_attrs :: "string list \<Rightarrow> attrs \<Rightarrow> py_error + attrs" where
  "remove_attrs list_of_attrs a = for_each_key (remove_if_listed list_of_attrs) (map fst a) a"

fun keep_flag :: "string list \<Rightarrow> string \<Rightarrow> bool \<Rightarrow> py_error + bool" where
  "keep_flag [] ds_attr delete = Inr delete"
| "keep_flag (list_attr # rest) ds_attr delete =
     and_then (search list_attr ds_attr) (\<lambda>hit. keep_flag rest ds_attr (if hit then False else delete))"

definition remove_unless_listed :: "string list \<Rightarrow> string \<Rightarrow> attrs \<Rightarrow> py_error + attrs" where
  "remove_unless_listed list_of_attrs ds_attr a =
     and_then (keep_flag list_of_attrs ds_attr True)
       (\<lambda>delete. if delete then Inr (dict_remove ds_attr a) else Inr a)"

definition remove_all_except :: "string list \<Rightarrow> attrs \<Rightarrow> py_error + attrs" where
  "remove_all_except list_of_attrs a = for_each_key (remove_unless_listed list_of_attrs) (map fst a) a"

definition add_all :: "attrs \<Rightarrow> attrs \<Rightarrow> py_error + attrs" where
  "add_all new a = Inr (dict_update a new)"

text \<open>
  The prefix stage, for one key: \<^verbatim>\<open>new_name = ds_attr.replace("cat:", change_attr_prefix)\<close>, and
  under \<^verbatim>\<open>if new_name:\<close> the assignment \<^verbatim>\<open>ds.attrs[new_name] = ds.attrs.pop(ds_attr)\<close>.
\<close>

definition rename_key :: "string \<Rightarrow> string \<Rightarrow> attrs \<Rightarrow> py_error + attrs" where
  "rename_key new_prefix ds_attr a =
     (let new_name = str_replace ''cat:'' new_prefix ds_attr
      in if new_name \<noteq> []
         then (case map_of a ds_attr of
                 None \<Rightarrow> Inl (KeyError ds_attr)
               | Some v \<Rightarrow> Inr (dict_set new_name v (dict_remove ds_attr a)))
         else Inr a)"

definition change_prefix :: "string \<Rightarrow> attrs \<Rightarrow> py_error + attrs" where
  "change_prefix new_prefix a = for_each_key (rename_key new_prefix) (map fst a) a"

text \<open>\<^verbatim>\<open>clean_up\<close>: the ten stages in the order of the source.\<close>

definition clean_up ::
  "('u, 'v) units_lib \<Rightarrow> ('c::linorder, 'v) xr_lib \<Rightarrow> ('c, 'v) dataset \<Rightarrow> ('c, 'v) clean_up_args \<Rightarrow>
   py_error + ('c, 'v) dataset" where
  "clean_up ulib lib ds args =
     and_then (when_given (variables_and_units args) (\<lambda>vu d. change_units ulib d vu) ds) (\<lambda>ds.
     and_then (when_given (convert_calendar_kwargs args)
                 (convert_calendar_stage lib (missing_by_var args)) ds) (\<lambda>ds.
     and_then (case maybe_unstack_dict args of None \<Rightarrow> Inr ds | Some a \<Rightarrow> maybe_unstack lib ds a) (\<lambda>ds.
     and_then (when_given (round_var args) (round_stage lib) ds) (\<lambda>ds.
     and_then (when_given (common_attrs_only args) (common_attrs_stage lib) ds) (\<lambda>ds.
     and_then (when_given (to_level args)
                 (\<lambda>lvl d. Inr (d\<lparr>attrs := dict_set ''cat:processing_level'' lvl (attrs d)\<rparr>)) ds) (\<lambda>ds.
     and_then (when_given (attrs_to_remove args) (for_each_obj remove_attrs) ds) (\<lambda>ds.
     and_then (when_given (remove_all_attrs_except args) (for_each_obj remove_all_except) ds) (\<lambda>ds.
     and_then (when_given (add_attrs args) (for_each_obj add_all) ds) (\<lambda>ds.
     when_given (change_attr_prefix args)
       (\<lambda>p d. and_then (change_prefix p (attrs d)) (\<lambda>a. Inr (d\<lparr>attrs := a\<rparr>))) ds)))))))))"

text \<open>Every optional argument absent.\<close>

definition no_args :: "('c, 'v) clean_up_args" where
  "no_args = \<lparr>variables_and_units = None, convert_calendar_kwargs = None, missing_by_var = None,
     maybe_unstack_dict = None, round_var = None, common_attrs_only = None, attrs_to_remove = None,
     remove_all_attrs_except = None, add_attrs = None, change_attr_prefix = None, to_level = None\<rparr>"

lemma str_replace_empty_iff:
  assumes "old \<noteq> []" "new \<noteq> []"
  shows "str_replace old new s = [] \<longleftrightarrow> s = []"
  using assms by (subst str_replace.simps) simp

lemma rename_key_empty: "str_replace ''cat:'' p k = [] \<Longrightarrow> rename_key p k a = Inr a"
  by (simp add: rename_key_def)

lemma rename_loop_keeps:
  assumes "p \<noteq> []"
  shows "distinct ks \<Longrightarrow> \<forall>k \<in> set ks. map_of a k \<noteq> None \<Longrightarrow> map_of a [] = Some v \<Longrightarrow>
         \<exists>a'. for_each_key (rename_key p) ks a = Inr a' \<and> map_of a' [] = Some v"
proof (induction ks arbitrary: a)
  case Nil
  then show ?case by simp
next
  case (Cons k ks)
  show ?case
  proof (cases "k = []")
    case True
    then have "str_replace ''cat:'' p k = []"
      by (subst str_replace.simps) simp
    then have "rename_key p k a = Inr a" by (rule rename_key_empty)
    moreover have "\<exists>a'. for_each_key (rename_key p) ks a = Inr a' \<and> map_of a' [] = Some v"
      using Cons.IH [of a] Cons.prems by simp
    ultimately show ?thesis by (simp add: and_then_def)
  next
    case False
    let ?n = "str_replace ''cat:'' p k"
    have n: "?n \<noteq> []"
      using str_replace_empty_iff [of "''cat:''" p k] assms False by simp
    obtain w where w: "map_of a k = Some w"
      using Cons.prems(2) by auto
    let ?a1 = "dict_set ?n w (dict_remove k a)"
    have step: "rename_key p k a = Inr ?a1"
      using n w by (simp add: rename_key_def)
    have "map_of ?a1 [] = Some v"
      using n False Cons.prems(3) by (simp add: map_of_dict_set map_of_dict_remove)
    moreover have "\<forall>k' \<in> set ks. map_of ?a1 k' \<noteq> None"
      using Cons.prems(1,2) by (auto simp: map_of_dict_set map_of_dict_remove)
    moreover have "distinct ks" using Cons.prems(1) by simp
    ultimately have "\<exists>a'. for_each_key (rename_key p) ks ?a1 = Inr a' \<and> map_of a' [] = Some v"
      using Cons.IH [of ?a1] by blast
    with step show ?thesis by (simp add: and_then_def)
  qed
qed

text \<open>
  C8, as stated, fails: with the prefix \<^verbatim>\<open>"p"\<close> the rewrite of the key \<^verbatim>\<open>""\<close> is empty, and
  after the stage the key \<^verbatim>\<open>""\<close> is still among the attributes, with its value.
\<close>

theorem change_prefix_empty_counterexample:
  "str_replace ''cat:'' ''p'' [] = []
   \<and> change_prefix ''p'' [([], ''v''), (''cat:id'', ''x'')] = Inr [([], ''v''), (''pid'', ''x'')]"
  by (simp add: change_prefix_def rename_key_def str_replace.simps dict_set_def dict_remove_def
      and_then_def)

text \<open>
  C8 (amended): in the prefix stage (which runs for a non-empty \<^verbatim>\<open>change_attr_prefix\<close>
  only), a global attribute key whose rewrite is empty is the empty key; for it no new key is
  written and nothing is removed (the step leaves the attributes as they are), and after the
  whole stage the key is still present with its value.
\<close>

theorem change_prefix_empty_key_kept:
  assumes "new_prefix \<noteq> []" and "distinct (map fst a)" and "map_of a k = Some v"
    and "str_replace ''cat:'' new_prefix k = []"
  shows "k = [] \<and> rename_key new_prefix k a = Inr a
         \<and> (\<exists>a'. change_prefix new_prefix a = Inr a' \<and> map_of a' k = Some v)"
proof -
  have k: "k = []"
    using str_replace_empty_iff [of "''cat:''" new_prefix k] assms(1,4) by simp
  have "\<forall>k' \<in> set (map fst a). map_of a k' \<noteq> None"
    by (simp add: map_of_eq_None_iff)
  then have "\<exists>a'. for_each_key (rename_key new_prefix) (map fst a) a = Inr a' \<and> map_of a' [] = Some v"
    using rename_loop_keeps [OF assms(1,2), of a v] assms(3) k by blast
  with k assms(4) show ?thesis
    by (simp add: change_prefix_def rename_key_empty)
qed

theorem change_prefix_empty_key_kept_witness:
  "''p'' \<noteq> [] \<and> distinct (map fst [([], ''v''), (''cat:id'', ''x'')])
   \<and> map_of [([], ''v''), (''cat:id'', ''x'')] [] = Some ''v''
   \<and> str_replace ''cat:'' ''p'' [] = []
   \<and> rename_key ''p'' [] [([], ''v''), (''cat:id'', ''x'')] = Inr [([], ''v''), (''cat:id'', ''x'')]
   \<and> (\<exists>a'. change_prefix ''p'' [([], ''v''), (''cat:id'', ''x'')] = Inr a' \<and> map_of a' [] = Some ''v'')"
proof -
  have h1: "''p'' \<noteq> []" by simp
  have h2: "distinct (map fst [([], ''v''), (''cat:id'', ''x'')])" by simp
  have h3: "map_of [([], ''v''), (''cat:id'', ''x'')] [] = Some ''v''" by simp
  have h4: "str_replace ''cat:'' ''p'' [] = []" by (simp add: str_replace.simps)
  from change_prefix_empty_key_kept [OF h1 h2 h3 h4] h1 h2 h3 h4 show ?thesis by simp
qed

text \<open>
  C10: with every optional argument \<^verbatim>\<open>None\<close>, \<open>clean_up\<close> skips every stage and returns
  the dataset it was given, whatever the libraries do.
\<close>

theorem clean_up_without_arguments: "clean_up ulib lib ds no_args = Inr ds"
  by (simp add: clean_up_def no_args_def when_given_def and_then_def)

subsection \<open>unstack\_dates\<close>

text \<open>
  The time coordinate is a list of dates; \<^verbatim>\<open>strftime("%m-%d")\<close> gives the key of a date.
  \<^verbatim>\<open>xr.infer_freq\<close> followed by \<^verbatim>\<open>parse_offset\<close> is the parameter \<open>freq\<close>: \<^verbatim>\<open>None\<close>, or
  the multiplier and the base of the inferred frequency. \<open>MONTH_ABBREVIATIONS\<close> is xarray's
  table \<^verbatim>\<open>_MONTH_ABBREVIATIONS\<close>.
\<close>

record date =
  year :: int
  month :: nat
  day :: nat

definition MONTH_ABBREVIATIONS :: "(nat \<times> string) list" where
  "MONTH_ABBREVIATIONS =
     [(1, ''JAN''), (2, ''FEB''), (3, ''MAR''), (4, ''APR''), (5, ''MAY''), (6, ''JUN''),
      (7, ''JUL''), (8, ''AUG''), (9, ''SEP''), (10, ''OCT''), (11, ''NOV''), (12, ''DEC'')]"

definition fmt_02d :: "nat \<Rightarrow> string" where
  "fmt_02d m = (if m < 10 then ''0'' @ str_of_nat m else str_of_nat m)"

definition strftime_md :: "date \<Rightarrow> string" where
  "strftime_md t = fmt_02d (month t) @ ''-'' @ fmt_02d (day t)"

text \<open>
  The branch \<^verbatim>\<open>if seasons is None\<close>: a \<open>ValueError\<close> when no frequency was inferred or its
  base is not one of A, Q, M, Y; for Q and for M with a multiplier, the initials of the
  \<open>n\<close> months from each month of \<^verbatim>\<open>np.unique(ds.time.dt.month)\<close> (sorted, without
  duplicates); for A and Y the labels \<^verbatim>\<open>annual-ABB\<close> with \<^verbatim>\<open>seasons["01-01"] = "annual"\<close>;
  otherwise the month abbreviations.
\<close>

definition infer_seasons :: "(nat \<times> string) option \<Rightarrow> nat list \<Rightarrow> py_error + (string \<times> string) list" where
  "infer_seasons freq months =
     (case freq of
        None \<Rightarrow> Inl ValueError
      | Some (mult, base) \<Rightarrow>
          if base \<notin> set [''A'', ''Q'', ''M'', ''Y''] then Inl ValueError
          else if base = ''Q'' \<or> (base = ''M'' \<and> mult > 1)
          then (let n = mult * (if base = ''M'' then 1 else 3)
                in Inr (map (\<lambda>m. (fmt_02d m @ ''-01'',
                                   map (\<lambda>i. ''JFMAMJJASOND'' ! (i mod 12)) [m - 1 ..< m + n - 1]))
                          (sort (remdups months))))
          else if base \<in> set [''A'', ''Y'']
          then Inr (dict_set ''01-01'' ''annual''
                      (map (\<lambda>(m, abb). (fmt_02d m @ ''-01'', ''annual-'' @ abb)) MONTH_ABBREVIATIONS))
          else Inr (map (\<lambda>(m, abb). (fmt_02d m @ ''-01'', abb)) MONTH_ABBREVIATIONS))"

text \<open>
  \<^verbatim>\<open>inverted = dict(zip(seasons.values(), seasons.keys()))\<close>: a later entry of the same label
  overwrites the key of an earlier one.
\<close>

definition invert_seasons :: "(string \<times> string) list \<Rightarrow> (string \<times> string) list" where
  "invert_seasons seasons = fold (\<lambda>(k, s) acc. dict_set s k acc) seasons []"

text \<open>
  The result: the yearly axis, the season axis and, for one variable along time, its values
  by year and season. Both new axes start as the levels of the index built by
  \<^verbatim>\<open>pd.MultiIndex.from_arrays([years, seas])\<close>, sorted and without duplicates. \<^verbatim>\<open>unstack\<close>
  writes the values to their (year, season) cell in the order of the time axis, so for a
  repeated pair the last value stays, and a cell that no timestamp names holds the fill
  value. \<^verbatim>\<open>ds.sortby\<close> then reorders the season axis, and the values with it, by ascending
  \<^verbatim>\<open>inverted[s]\<close>, a stable sort on strings.
\<close>

record 'v unstacked =
  u_time :: "int list"
  u_season :: "string list"
  u_values :: "'v list list"

definition unstack_dates ::
  "'v \<Rightarrow> (nat \<times> string) option \<Rightarrow> date list \<Rightarrow> 'v list \<Rightarrow> (string \<times> string) list option \<Rightarrow>
   py_error + 'v unstacked" where
  "unstack_dates fill freq time vals seasons_arg =
     (case (case seasons_arg of Some s \<Rightarrow> Inr s | None \<Rightarrow> infer_seasons freq (map month time)) of
        Inl e \<Rightarrow> Inl e
      | Inr seasons \<Rightarrow>
          (case traverse (\<lambda>t. case map_of seasons (strftime_md t) of
                                 Some s \<Rightarrow> Inr s | None \<Rightarrow> Inl (KeyError (strftime_md t))) time of
             Inl e \<Rightarrow> Inl e
           | Inr seas \<Rightarrow>
               let years = map year time;
                   index = zip years seas;
                   year_axis = sort (remdups years);
                   season_axis = sort (remdups seas);
                   inverted = invert_seasons seasons
               in (case traverse (\<lambda>s. case map_of inverted s of
                                         Some k \<Rightarrow> Inr (k, s) | None \<Rightarrow> Inl (KeyError s)) season_axis of
                     Inl e \<Rightarrow> Inl e
                   | Inr keyed \<Rightarrow>
                       let sorted_axis = map snd (sort_key fst keyed)
                       in Inr \<lparr>u_time = year_axis, u_season = sorted_axis,
                               u_values = map (\<lambda>y. map (\<lambda>s. case map_of (rev (zip index vals)) (y, s) of
                                                              Some x \<Rightarrow> x | None \<Rightarrow> fill) sorted_axis)
                                            year_axis\<rparr>)))"

text \<open>A quarterly series anchored in December (\<^verbatim>\<open>QS-DEC\<close>), from December 2000.\<close>

definition qs_dec_time :: "date list" where
  "qs_dec_time =
     [\<lparr>year = 2000, month = 12, day = 1\<rparr>, \<lparr>year = 2001, month = 3, day = 1\<rparr>,
      \<lparr>year = 2001, month = 6, day = 1\<rparr>, \<lparr>year = 2001, month = 9, day = 1\<rparr>,
      \<lparr>year = 2001, month = 12, day = 1\<rparr>]"


text \<open>
  The key of the last entry of the SeasonMap that carries a given label. This is the
  specification side of the comparison.
\<close>

definition last_key :: "(string \<times> string) list \<Rightarrow> string \<Rightarrow> string option" where
  "last_key seasons s = map_of (rev (map (\<lambda>(k, s). (s, k)) seasons)) s"

lemma map_of_fold_invert:
  "map_of (fold (\<lambda>(k, s) acc. dict_set s k acc) seasons acc) x
   = (case map_of (rev (map (\<lambda>(k, s). (s, k)) seasons)) x of Some k \<Rightarrow> Some k | None \<Rightarrow> map_of acc x)"
proof (induction seasons arbitrary: acc)
  case Nil
  then show ?case by simp
next
  case (Cons p seasons)
  obtain k s where p: "p = (k, s)" by (cases p)
  show ?case
    unfolding p
    by (simp add: Cons.IH map_of_dict_set map_add_def split: option.splits)
qed

lemma map_of_invert_seasons: "map_of (invert_seasons seasons) s = last_key seasons s"
  by (simp add: invert_seasons_def last_key_def map_of_fold_invert split: option.splits)


lemma traverse_map:
  "\<forall>x \<in> set xs. f x = Inr (g x) \<Longrightarrow> traverse f xs = Inr (map g xs)"
  by (induction xs) auto

lemma last_key_defined:
  assumes "map_of seasons k = Some s"
  shows "\<exists>k'. last_key seasons s = Some k'"
proof -
  from assms have "(k, s) \<in> set seasons" by (rule map_of_SomeD)
  then have "s \<in> fst ` set (rev (map (\<lambda>(k, s). (s, k)) seasons))" by force
  then show ?thesis
    unfolding last_key_def by (cases "map_of (rev (map (\<lambda>(k, s). (s, k)) seasons)) s")
      (auto simp: map_of_eq_None_iff)
qed

lemma sorted_axis_props:
  fixes keyed :: "(string \<times> string) list"
  assumes "distinct (map snd keyed)" and "\<forall>(k, s) \<in> set keyed. look s = Some k"
  shows "set (map snd (sort_key fst keyed)) = set (map snd keyed)"
    and "distinct (map snd (sort_key fst keyed))"
    and "map look (map snd (sort_key fst keyed)) = map Some (map fst (sort_key fst keyed))"
    and "sorted (map fst (sort_key fst keyed))"
proof -
  show "set (map snd (sort_key fst keyed)) = set (map snd keyed)" by simp
  show "distinct (map snd (sort_key fst keyed))"
    using assms(1) by (simp add: distinct_map)
  have "\<forall>p \<in> set (sort_key fst keyed). look (snd p) = Some (fst p)"
    using assms(2) by auto
  then show "map look (map snd (sort_key fst keyed)) = map Some (map fst (sort_key fst keyed))"
    by simp
  show "sorted (map fst (sort_key fst keyed))" by (rule sorted_sort_key)
qed

lemma unstack_dates_axis:
  assumes "(case seasons_arg of Some s \<Rightarrow> Inr s | None \<Rightarrow> infer_seasons freq (map month time)) = Inr seasons"
    and "\<forall>t \<in> set time. map_of seasons (strftime_md t) \<noteq> None"
  shows "\<exists>out. unstack_dates fill freq time vals seasons_arg = Inr out
       \<and> set (u_season out) = (\<lambda>t. the (map_of seasons (strftime_md t))) ` set time
       \<and> distinct (u_season out)
       \<and> (\<exists>ks. map (last_key seasons) (u_season out) = map Some ks \<and> sorted ks)"
proof -
  define seas where "seas = map (\<lambda>t. the (map_of seasons (strftime_md t))) time"
  define keyed where "keyed = map (\<lambda>s. (the (last_key seasons s), s)) (sort (remdups seas))"
  define vals' where "vals' = map (\<lambda>y. map (\<lambda>s. case map_of (rev (zip (zip (map year time) seas) vals)) (y, s) of
                                               Some x \<Rightarrow> x | None \<Rightarrow> fill) (map snd (sort_key fst keyed)))
                                (sort (remdups (map year time)))"
  define out where "out = \<lparr>u_time = sort (remdups (map year time)),
                            u_season = map snd (sort_key fst keyed), u_values = vals'\<rparr>"
  have t1: "traverse (\<lambda>t. case map_of seasons (strftime_md t) of
                            Some s \<Rightarrow> Inr s | None \<Rightarrow> Inl (KeyError (strftime_md t))) time = Inr seas"
    unfolding seas_def by (rule traverse_map) (use assms(2) in auto)
  have def_key: "\<exists>k. last_key seasons s = Some k" if "s \<in> set seas" for s
  proof -
    from that obtain t where "t \<in> set time" and "s = the (map_of seasons (strftime_md t))"
      by (auto simp: seas_def)
    with assms(2) have "map_of seasons (strftime_md t) = Some s" by auto
    then show ?thesis by (rule last_key_defined)
  qed
  have t2: "traverse (\<lambda>s. case map_of (invert_seasons seasons) s of
                            Some k \<Rightarrow> Inr (k, s) | None \<Rightarrow> Inl (KeyError s)) (sort (remdups seas))
            = Inr keyed"
    unfolding keyed_def
  proof (rule traverse_map, rule ballI)
    fix s assume "s \<in> set (sort (remdups seas))"
    then have "s \<in> set seas" by simp
    from def_key [OF this] obtain k where "last_key seasons s = Some k" ..
    then show "(case map_of (invert_seasons seasons) s of
                  Some k \<Rightarrow> Inr (k, s) | None \<Rightarrow> Inl (KeyError s)) = Inr (the (last_key seasons s), s)"
      by (simp add: map_of_invert_seasons)
  qed
  have res: "unstack_dates fill freq time vals seasons_arg = Inr out"
    using assms(1) t1 t2 by (simp add: unstack_dates_def Let_def out_def vals'_def)
  have labels: "map snd keyed = sort (remdups seas)"
    by (simp add: keyed_def comp_def)
  have look: "\<forall>(k, s) \<in> set keyed. last_key seasons s = Some k"
    using def_key by (auto simp: keyed_def)
  have d: "distinct (map snd keyed)" by (simp add: labels)
  have us: "u_season out = map snd (sort_key fst keyed)" by (simp add: out_def)
  have "set (u_season out) = set seas"
    using sorted_axis_props(1) [OF d look] labels us by simp
  then have p1: "set (u_season out) = (\<lambda>t. the (map_of seasons (strftime_md t))) ` set time"
    by (simp add: seas_def)
  have p2: "distinct (u_season out)"
    using sorted_axis_props(2) [OF d look] us by simp
  have p3: "\<exists>ks. map (last_key seasons) (u_season out) = map Some ks \<and> sorted ks"
    using sorted_axis_props(3,4) [OF d look] us by metis
  from res p1 p2 p3 show ?thesis by blast
qed

text \<open>
  A timestamp whose \<open>"MM-DD"\<close> key is not in the SeasonMap ends the call: \<^verbatim>\<open>seasons[k]\<close>
  raises \<open>KeyError\<close> for the first such key.
\<close>

lemma traverse_Inl:
  "f x = Inl e \<Longrightarrow> \<forall>y \<in> set xs. \<exists>z. f y = Inr z \<Longrightarrow> traverse f (xs @ x # ys) = Inl e"
  by (induction xs) auto

lemma unstack_dates_missing_key:
  assumes "(case seasons_arg of Some s \<Rightarrow> Inr s | None \<Rightarrow> infer_seasons freq (map month time)) = Inr seasons"
    and "time = before @ t # after"
    and "\<forall>t' \<in> set before. map_of seasons (strftime_md t') \<noteq> None"
    and "map_of seasons (strftime_md t) = None"
  shows "unstack_dates fill freq time vals seasons_arg = Inl (KeyError (strftime_md t))"
proof -
  have "traverse (\<lambda>t. case map_of seasons (strftime_md t) of
                            Some s \<Rightarrow> Inr s | None \<Rightarrow> Inl (KeyError (strftime_md t))) (before @ t # after)
        = Inl (KeyError (strftime_md t))"
    by (rule traverse_Inl) (use assms(3,4) in auto)
  then have tr: "traverse (\<lambda>t. case map_of seasons (strftime_md t) of
                            Some s \<Rightarrow> Inr s | None \<Rightarrow> Inl (KeyError (strftime_md t))) time
        = Inl (KeyError (strftime_md t))"
    by (simp only: assms(2))
  show ?thesis
    by (simp add: unstack_dates_def assms(1) tr)
qed

text \<open>An explicit SeasonMap in which two keys share the label \<^verbatim>\<open>winter\<close>.\<close>

definition winter_time :: "date list" where
  "winter_time =
     [\<lparr>year = 2000, month = 12, day = 1\<rparr>, \<lparr>year = 2001, month = 6, day = 1\<rparr>,
      \<lparr>year = 2002, month = 1, day = 1\<rparr>]"

definition winter_seasons :: "(string \<times> string) list" where
  "winter_seasons = [(''12-01'', ''winter''), (''01-01'', ''winter''), (''06-01'', ''summer'')]"

text \<open>
  A series in which the label \<^verbatim>\<open>winter\<close> occurs twice in the year 2001, in January and in
  December.
\<close>

definition two_winters_time :: "date list" where
  "two_winters_time =
     [\<lparr>year = 2000, month = 12, day = 1\<rparr>, \<lparr>year = 2001, month = 1, day = 1\<rparr>,
      \<lparr>year = 2001, month = 6, day = 1\<rparr>, \<lparr>year = 2001, month = 12, day = 1\<rparr>]"

text \<open>
  C3, as stated, fails twice. For the quarterly series anchored in December the season axis
  is MAM, JJA, SON, DJF: the key of DJF is \<^verbatim>\<open>"12-01"\<close>, the greatest, so DJF comes last, not
  before MAM. And a label is placed by its last key, not its first: \<^verbatim>\<open>winter\<close>, first keyed
  \<^verbatim>\<open>"12-01"\<close> and then \<^verbatim>\<open>"01-01"\<close>, comes before \<^verbatim>\<open>summer\<close>, keyed \<^verbatim>\<open>"06-01"\<close>.
\<close>

theorem unstack_dates_qs_dec_counterexample:
  "unstack_dates (0::int) (Some (1, ''Q'')) qs_dec_time [1, 2, 3, 4, 5] None
     = Inr \<lparr>u_time = [2000, 2001], u_season = [''MAM'', ''JJA'', ''SON'', ''DJF''],
            u_values = [[0, 0, 0, 1], [2, 3, 4, 5]]\<rparr>
   \<and> unstack_dates (0::int) None winter_time [1, 2, 3] (Some winter_seasons)
     = Inr \<lparr>u_time = [2000, 2001, 2002], u_season = [''winter'', ''summer''],
            u_values = [[1, 0], [0, 2], [3, 0]]\<rparr>"
  by code_simp

text \<open>
  C3 (amended): with the SeasonMap given or inferred, and every timestamp's \<open>"MM-DD"\<close> key
  in it, \<open>unstack_dates\<close> returns, whether or not a (year, label) pair repeats; the season
  axis of the result holds exactly the labels of the timestamps, each once, and it is sorted
  by the ascending string order of the \<open>"MM-DD"\<close> key that the inverted SeasonMap gives each
  label, which is the last key of the SeasonMap carrying that label; it is not sorted by the
  labels. (For a quarterly series anchored in December this order is MAM, JJA, SON, DJF.)
\<close>

theorem unstack_dates_season_order:
  assumes "(case seasons_arg of Some s \<Rightarrow> Inr s | None \<Rightarrow> infer_seasons freq (map month time)) = Inr seasons"
    and "\<forall>t \<in> set time. map_of seasons (strftime_md t) \<noteq> None"
  shows "\<exists>out. unstack_dates fill freq time vals seasons_arg = Inr out
       \<and> set (u_season out) = (\<lambda>t. the (map_of seasons (strftime_md t))) ` set time
       \<and> distinct (u_season out)
       \<and> (\<exists>ks. map (last_key seasons) (u_season out) = map Some ks \<and> sorted ks)"
  using assms by (rule unstack_dates_axis)

lemma two_winters_unstacked:
  "unstack_dates (0::int) None two_winters_time [1, 2, 3, 4] (Some winter_seasons)
     = Inr \<lparr>u_time = [2000, 2001], u_season = [''winter'', ''summer''],
            u_values = [[1, 0], [4, 3]]\<rparr>"
  by code_simp

lemma two_winters_covered:
  "\<forall>t \<in> set two_winters_time. map_of winter_seasons (strftime_md t) \<noteq> None"
  by code_simp

theorem unstack_dates_season_order_witness:
  "(case Some winter_seasons of Some s \<Rightarrow> Inr s | None \<Rightarrow> infer_seasons None (map month two_winters_time))
     = (Inr winter_seasons :: py_error + (string \<times> string) list)
   \<and> list_all (\<lambda>t. map_of winter_seasons (strftime_md t) \<noteq> None) two_winters_time
   \<and> (\<exists>out. unstack_dates (0::int) None two_winters_time [1, 2, 3, 4] (Some winter_seasons) = Inr out
        \<and> out = \<lparr>u_time = [2000, 2001], u_season = [''winter'', ''summer''], u_values = [[1, 0], [4, 3]]\<rparr>
        \<and> set (u_season out) = (\<lambda>t. the (map_of winter_seasons (strftime_md t))) ` set two_winters_time
        \<and> distinct (u_season out)
        \<and> (\<exists>ks. map (last_key winter_seasons) (u_season out) = map Some ks \<and> sorted ks))"
proof -
  have h1: "(case Some winter_seasons of Some s \<Rightarrow> Inr s
             | None \<Rightarrow> infer_seasons None (map month two_winters_time))
            = (Inr winter_seasons :: py_error + (string \<times> string) list)"
    by simp
  from unstack_dates_season_order [OF h1 two_winters_covered, of 0 "[1, 2, 3, 4]"]
  obtain out where
    r: "unstack_dates (0::int) None two_winters_time [1, 2, 3, 4] (Some winter_seasons) = Inr out"
    and p: "set (u_season out) = (\<lambda>t. the (map_of winter_seasons (strftime_md t))) ` set two_winters_time
        \<and> distinct (u_season out)
        \<and> (\<exists>ks. map (last_key winter_seasons) (u_season out) = map Some ks \<and> sorted ks)"
    by blast
  from r two_winters_unstacked have
    o: "out = \<lparr>u_time = [2000, 2001], u_season = [''winter'', ''summer''], u_values = [[1, 0], [4, 3]]\<rparr>"
    by simp
  have c: "list_all (\<lambda>t. map_of winter_seasons (strftime_md t) \<noteq> None) two_winters_time"
    using two_winters_covered by (simp add: list_all_iff)
  from h1 c r o p show ?thesis by blast
qed

subsection \<open>The round trip of stack\_drop\_nans and unstack\_fill\_nan\<close>

text \<open>
  Facts about \<open>where_drop\<close>, the selection \<open>.where(mask, drop=True)\<close> of the stacked
  points: it keeps a sublist, so the kept points stay distinct, and a kept point keeps the
  value it had.
\<close>
lemma where_drop_Nil [simp]: "where_drop [] xs = []" "where_drop ms [] = []"
  by (simp_all add: where_drop_def)

lemma where_drop_Cons [simp]:
  "where_drop (m # ms) (x # xs) = (if m then x # where_drop ms xs else where_drop ms xs)"
  by (simp add: where_drop_def)










text \<open>
  Datasets are compared point by point, by label. \<open>sel ds name t\<close> is
  \<open>ds[name].sel(d1=t1, ..., dn=tn)\<close> for the dimensions \<open>d1, ..., dn\<close> of the variable: the
  value of the variable at the point whose coordinate labels are \<open>t\<close>, and \<open>None\<close> when the
  dataset has no such variable or no such point (xarray raises a \<open>KeyError\<close> there).
  \<open>mask_at msk t\<close> reads the mask in the same way.
\<close>
definition sel :: "('c, 'v) dataset \<Rightarrow> string \<Rightarrow> 'c list \<Rightarrow> 'v option" where
  "sel ds name t =
     (case map_of (data_vars ds) name of
        None \<Rightarrow> None
      | Some v \<Rightarrow> (case index_coords ds (v_dims v) of
                    None \<Rightarrow> None
                  | Some levels \<Rightarrow> map_of (zip (product_lists levels) (v_values v)) t))"













lemma map_of_map_if:
  "map_of (map (\<lambda>(n, c). if P n then (n, f c) else (n, c)) xs) k
   = map_option (\<lambda>c. if P k then f c else c) (map_of xs k)"
  by (induction xs) auto




lemma data_vars_update_dim_attrs [simp]:
  "data_vars (update_dim_attrs ds0 dims0 out) = data_vars out"
  by (simp add: update_dim_attrs_def)






















end
